theory Spec2Isabelle
  imports Main "HOL-Library.Word"
begin

section \<open>mycat: the data model\<close>

text \<open>
  The embedding follows \<^verbatim>\<open>src/mycat/mycat.cpp\<close>. A \<^verbatim>\<open>std::string\<close> is a
  \<^typ>\<open>string\<close> (a list of 8-bit characters), the struct \<^verbatim>\<open>Options\<close> is a record
  with the source's field names, and what the program writes to \<^verbatim>\<open>std::cout\<close> and
  \<^verbatim>\<open>std::cerr\<close> is collected in two strings of the run state.
\<close>

record Options =
  number_lines :: bool
  number_non_blank :: bool
  show_ends :: bool
  show_tabs :: bool
  squeeze_blanks :: bool

text \<open>The default member initialisers of the struct: every flag is off.\<close>

definition default_options :: Options where
  "default_options =
     \<lparr>number_lines = False, number_non_blank = False, show_ends = False,
      show_tabs = False, squeeze_blanks = False\<rparr>"

abbreviation TAB :: char where
  "TAB \<equiv> CHR 0x09"

abbreviation NL :: char where
  "NL \<equiv> CHR 0x0A"

section \<open>The line transformer\<close>

text \<open>
  The body of the range-for loop of \<^verbatim>\<open>transform_line\<close>: one character is appended
  to the accumulator \<^verbatim>\<open>transformed_line\<close>, a tab as the two characters \<^verbatim>\<open>^I\<close>.
\<close>

definition append_visible :: "string \<Rightarrow> char \<Rightarrow> string" where
  "append_visible transformed_line c =
     (if c = TAB then transformed_line @ ''^I'' else transformed_line @ [c])"

text \<open>
  \<^verbatim>\<open>transform_line\<close>: the loop runs over the characters of the line from left to
  right, starting from the empty accumulator; the end marker is appended afterwards.
\<close>

definition transform_line :: "string \<Rightarrow> Options \<Rightarrow> string" where
  "transform_line line opts =
     (let result = line;
          result = (if show_tabs opts then foldl append_visible [] result else result);
          result = (if show_ends opts then result @ ''$'' else result)
      in result)"

text \<open>
  The words of the specification, for comparison: every tab is replaced with \<^verbatim>\<open>^I\<close>,
  one character at a time, and every other character stands for itself.
\<close>

definition visible_char :: "char \<Rightarrow> string" where
  "visible_char c = (if c = TAB then ''^I'' else [c])"

definition tabs_replaced :: "string \<Rightarrow> string" where
  "tabs_replaced line = concat (map visible_char line)"

section \<open>Argument parsing\<close>

text \<open>
  \<^verbatim>\<open>print_usage\<close>: the text written to \<^verbatim>\<open>std::cerr\<close>.
\<close>

definition print_usage :: "string \<Rightarrow> string" where
  "print_usage program_name =
     ''Usage: '' @ program_name @ '' [OPTION]... [FILE]...'' @ [NL]
     @ ''Concatenate FILE(S) to standard output. '' @ [NL, NL]
     @ ''Options:'' @ [NL]
     @ ''  -n      number all output lines'' @ [NL]
     @ ''  -b      number non-empty output lines'' @ [NL]
     @ ''  -E      display $ at the end of each line'' @ [NL]
     @ ''  -T      display TAB charactesr as ^I'' @ [NL]
     @ ''  -s      squeeze multiple blank lines'' @ [NL]
     @ ''  -h      display this help and exit'' @ [NL]
     @ ''With no FILE or when FILE is -, read standard input.'' @ [NL]"

text \<open>
  The inner loop of \<^verbatim>\<open>parse_arguments\<close> over the characters \<^verbatim>\<open>arg[1]\<close>,
  \<^verbatim>\<open>arg[2]\<close>, ... of a flag argument, with its \<^verbatim>\<open>switch\<close>. The result is whether
  parsing goes on, the options as the loop left them, and what was written to
  \<^verbatim>\<open>std::cerr\<close>. \<^verbatim>\<open>-h\<close> and an unknown letter both return \<^verbatim>\<open>false\<close> at once.
\<close>

fun parse_flags :: "string \<Rightarrow> Options \<Rightarrow> bool \<times> Options \<times> string" where
  "parse_flags [] opts = (True, opts, [])"
| "parse_flags (c # cs) opts =
     (if c = CHR ''n'' then parse_flags cs (opts\<lparr>number_lines := True\<rparr>)
      else if c = CHR ''b'' then parse_flags cs (opts\<lparr>number_non_blank := True\<rparr>)
      else if c = CHR ''E'' then parse_flags cs (opts\<lparr>show_ends := True\<rparr>)
      else if c = CHR ''T'' then parse_flags cs (opts\<lparr>show_tabs := True\<rparr>)
      else if c = CHR ''s'' then parse_flags cs (opts\<lparr>squeeze_blanks := True\<rparr>)
      else if c = CHR ''h'' then (False, opts, [])
      else (False, opts,
            ''mycat: invalid option -- '' @ [CHR 0x27, c, CHR 0x27, NL]
            @ ''Try mycat -h for more information.'' @ [NL]))"

text \<open>
  \<^verbatim>\<open>arg[0]\<close> of a \<^verbatim>\<open>std::string\<close>: the first character, and the terminating
  null character when the string is empty.
\<close>

definition first_char :: "string \<Rightarrow> char" where
  "first_char arg = (case arg of [] \<Rightarrow> CHR 0x00 | c # _ \<Rightarrow> c)"

text \<open>
  The outer loop of \<^verbatim>\<open>parse_arguments\<close> over \<^verbatim>\<open>argv[1]\<close>, ..., with the local
  \<^verbatim>\<open>stop_parsing_flags\<close> and the two reference parameters \<^verbatim>\<open>opts\<close> and
  \<^verbatim>\<open>files\<close> as arguments. The result is the return value, the options, the files and
  the text written to \<^verbatim>\<open>std::cerr\<close>.
\<close>

fun parse_loop ::
  "string list \<Rightarrow> bool \<Rightarrow> Options \<Rightarrow> string list \<Rightarrow> bool \<times> Options \<times> string list \<times> string"
where
  "parse_loop [] stop_parsing_flags opts files = (True, opts, files, [])"
| "parse_loop (arg # args) stop_parsing_flags opts files =
     (if arg = ''--'' then parse_loop args True opts files
      else if \<not> stop_parsing_flags \<and> first_char arg = CHR ''-'' \<and> length arg > 1 then
        (if arg = ''-'' then parse_loop args stop_parsing_flags opts (files @ [arg])
         else
           (case parse_flags (tl arg) opts of
              (True, opts', e) \<Rightarrow> parse_loop args stop_parsing_flags opts' files
            | (False, opts', e) \<Rightarrow> (False, opts', files, e)))
      else parse_loop args stop_parsing_flags opts (files @ [arg]))"

text \<open>
  \<^verbatim>\<open>parse_arguments\<close>: the loop starts at \<^verbatim>\<open>argv[1]\<close>; after it, \<^verbatim>\<open>-b\<close>
  overrides \<^verbatim>\<open>-n\<close>.
\<close>

definition parse_arguments ::
  "string list \<Rightarrow> Options \<Rightarrow> string list \<Rightarrow> bool \<times> Options \<times> string list \<times> string"
where
  "parse_arguments argv opts files =
     (case parse_loop (drop 1 argv) False opts files of
        (False, opts', files', e) \<Rightarrow> (False, opts', files', e)
      | (True, opts', files', e) \<Rightarrow>
          (True,
           (if number_non_blank opts' then opts'\<lparr>number_lines := False\<rparr> else opts'),
           files', e))"

section \<open>The environment and the run state\<close>

text \<open>
  What the program sees of a path: whether \<^verbatim>\<open>stat\<close> fails (with the text of
  \<^verbatim>\<open>strerror(errno)\<close>), whether the path is a directory, whether \<^verbatim>\<open>access\<close> with
  \<^verbatim>\<open>R_OK\<close> fails, whether \<^verbatim>\<open>std::ifstream::open\<close> fails, the lines that
  \<^verbatim>\<open>std::getline\<close> delivers before it returns a stream in a failed state, and whether
  \<^verbatim>\<open>bad()\<close> holds then. A read of a \<^verbatim>\<open>std::ifstream\<close> that fails sets
  \<^verbatim>\<open>badbit\<close>, so for a file \<^verbatim>\<open>bad()\<close> says that a read error occurred. The file
  system does not change during a run.

  Standard input is read through \<^verbatim>\<open>std::cin\<close>, which \<^verbatim>\<open>main\<close> leaves synchronised
  with the C streams: a read that fails there reaches \<^verbatim>\<open>std::getline\<close> as the end of
  the input, and \<^verbatim>\<open>badbit\<close> is not set. The environment therefore says separately
  whether a read of standard input failed (\<open>stdin_read_fails\<close>) and whether \<^verbatim>\<open>bad()\<close>
  holds on \<^verbatim>\<open>std::cin\<close> when the loop ends (\<open>stdin_bad\<close>, which a failed read does
  not set). Once read to its end standard input delivers nothing more, and its
  \<^verbatim>\<open>bad()\<close> stays what it was.
\<close>

record file_entry =
  stat_error :: "string option"
  is_directory :: bool
  access_error :: "string option"
  open_error :: "string option"
  file_lines :: "string list"
  file_bad :: bool

record environment =
  file_system :: "string \<Rightarrow> file_entry"
  stdin_lines :: "string list"
  stdin_read_fails :: bool
  stdin_bad :: bool

text \<open>
  The state a run threads: the locals \<^verbatim>\<open>line_number\<close> (an \<^verbatim>\<open>int\<close>, 32 bits,
  written as signed decimal) and \<^verbatim>\<open>last_was_blank\<close> of \<^verbatim>\<open>main\<close>, which
  \<^verbatim>\<open>process_file\<close> takes by reference, what has been written to \<^verbatim>\<open>std::cout\<close> and
  \<^verbatim>\<open>std::cerr\<close>, and the lines \<^verbatim>\<open>std::cin\<close> has still to deliver. Writing to
  the two output streams is taken to succeed.
\<close>

record run_state =
  line_number :: "32 word"
  last_was_blank :: bool
  cout :: string
  cerr :: string
  cin_rest :: "string list"

section \<open>The access check\<close>

text \<open>
  \<^verbatim>\<open>check_file_access\<close>, with the diagnostic appended to \<^verbatim>\<open>std::cerr\<close>.
\<close>

definition diagnostic :: "string \<Rightarrow> string \<Rightarrow> string" where
  "diagnostic filename message = ''mycat: '' @ filename @ '': '' @ message @ [NL]"

definition check_file_access :: "environment \<Rightarrow> string \<Rightarrow> run_state \<Rightarrow> bool \<times> run_state" where
  "check_file_access env filename st =
     (if filename = ''-'' then (True, st)
      else
        (case stat_error (file_system env filename) of
           Some e \<Rightarrow> (False, st\<lparr>cerr := cerr st @ diagnostic filename e\<rparr>)
         | None \<Rightarrow>
             if is_directory (file_system env filename)
             then (False, st\<lparr>cerr := cerr st @ diagnostic filename ''Is a directory''\<rparr>)
             else
               (case access_error (file_system env filename) of
                  Some e \<Rightarrow> (False, st\<lparr>cerr := cerr st @ diagnostic filename e\<rparr>)
                | None \<Rightarrow> (True, st))))"

section \<open>Writing a line number\<close>

text \<open>
  \<^verbatim>\<open>std::cout << std::setw(6) << std::right << line_number++\<close> writes the \<^verbatim>\<open>int\<close>
  in decimal, with a minus sign when it is negative, and pads it on the left with
  spaces to six characters; a longer number is written in full.
\<close>

fun decimal :: "nat \<Rightarrow> string" where
  "decimal n =
     (if n < 10 then [''0123456789'' ! n]
      else decimal (n div 10) @ [''0123456789'' ! (n mod 10)])"

definition show_int :: "int \<Rightarrow> string" where
  "show_int i = (if i < 0 then ''-'' @ decimal (nat (- i)) else decimal (nat i))"

definition setw_right :: "nat \<Rightarrow> string \<Rightarrow> string" where
  "setw_right w s = replicate (w - length s) CHR '' '' @ s"

definition number_prefix :: "int \<Rightarrow> string" where
  "number_prefix i = setw_right 6 (show_int i) @ '' ''"

section \<open>The stream processor\<close>

text \<open>
  The body of the \<^verbatim>\<open>while\<close> loop of \<^verbatim>\<open>process_file\<close>, for one line that
  \<^verbatim>\<open>std::getline\<close> delivered. \<^verbatim>\<open>line_number++\<close> on an \<^verbatim>\<open>int\<close> is addition on
  32 bits; C++ leaves the step beyond 2147483647 undefined, and the model takes the
  two's complement result of the machine there.
\<close>

definition process_line :: "Options \<Rightarrow> string \<Rightarrow> run_state \<Rightarrow> run_state" where
  "process_line opts line st =
     (let is_blank = (line = []) in
      if squeeze_blanks opts \<and> is_blank \<and> last_was_blank st then st
      else
        let st = st\<lparr>last_was_blank := is_blank\<rparr>;
            st = (if number_lines opts \<or> (number_non_blank opts \<and> \<not> is_blank)
                  then st\<lparr>cout := cout st @ number_prefix (sint (line_number st)),
                          line_number := line_number st + 1\<rparr>
                  else st);
            transformed_line = transform_line line opts
        in st\<lparr>cout := cout st @ transformed_line @ [NL]\<rparr>)"

text \<open>The \<^verbatim>\<open>while\<close> loop over the lines a stream delivers.\<close>

fun read_lines :: "Options \<Rightarrow> string list \<Rightarrow> run_state \<Rightarrow> run_state" where
  "read_lines opts [] st = st"
| "read_lines opts (line # rest) st = read_lines opts rest (process_line opts line st)"

text \<open>
  \<^verbatim>\<open>process_file\<close>: \<^verbatim>\<open>-\<close> binds to \<^verbatim>\<open>std::cin\<close>, any other name is opened; a
  failed open is reported and nothing is read; after the loop \<^verbatim>\<open>bad()\<close> decides
  between a read error and a clean end.
\<close>

definition process_file ::
  "environment \<Rightarrow> string \<Rightarrow> Options \<Rightarrow> run_state \<Rightarrow> bool \<times> run_state"
where
  "process_file env filename opts st =
     (if filename = ''-'' then
        (let st = (read_lines opts (cin_rest st) st)\<lparr>cin_rest := []\<rparr> in
         if stdin_bad env
         then (False, st\<lparr>cerr := cerr st @ diagnostic filename ''Read error''\<rparr>)
         else (True, st))
      else
        (case open_error (file_system env filename) of
           Some e \<Rightarrow> (False, st\<lparr>cerr := cerr st @ diagnostic filename e\<rparr>)
         | None \<Rightarrow>
             (let st = read_lines opts (file_lines (file_system env filename)) st in
              if file_bad (file_system env filename)
              then (False, st\<lparr>cerr := cerr st @ diagnostic filename ''Read error''\<rparr>)
              else (True, st))))"

section \<open>The main program\<close>

text \<open>
  The body of the loop over \<^verbatim>\<open>files\<close> in \<^verbatim>\<open>main\<close>, on the pair of the local
  \<^verbatim>\<open>had_errors\<close> and the run state: a name other than \<^verbatim>\<open>-\<close> that fails the access
  check is skipped (\<^verbatim>\<open>continue\<close>), any other is handed to \<^verbatim>\<open>process_file\<close>.
\<close>

definition main_step ::
  "environment \<Rightarrow> Options \<Rightarrow> string \<Rightarrow> bool \<times> run_state \<Rightarrow> bool \<times> run_state"
where
  "main_step env opts filename hs =
     (case hs of (had_errors, st) \<Rightarrow>
        (case (if filename \<noteq> ''-'' then check_file_access env filename st else (True, st)) of
           (accessible, st) \<Rightarrow>
             if filename \<noteq> ''-'' \<and> \<not> accessible then (True, st)
             else
               (case process_file env filename opts st of
                  (ok, st) \<Rightarrow> (if \<not> ok then True else had_errors, st))))"

fun main_loop ::
  "environment \<Rightarrow> Options \<Rightarrow> string list \<Rightarrow> bool \<times> run_state \<Rightarrow> bool \<times> run_state"
where
  "main_loop env opts [] hs = hs"
| "main_loop env opts (filename # files) hs = main_loop env opts files (main_step env opts filename hs)"

text \<open>
  The state at the start of a run: \<^verbatim>\<open>line_number = 1\<close>, \<^verbatim>\<open>last_was_blank = false\<close>,
  nothing written yet, and standard input unread.
\<close>

definition initial_state :: "environment \<Rightarrow> run_state" where
  "initial_state env =
     \<lparr>line_number = 1, last_was_blank = False, cout = [], cerr = [],
      cin_rest = stdin_lines env\<rparr>"

text \<open>
  \<^verbatim>\<open>main\<close>: the exit code, and the run state at exit. On a failed parse the usage
  text follows what the parser wrote, and the exit code is 1. A parse that succeeds has
  written nothing (\<open>parse_arguments_silent\<close> below).
\<close>

definition main :: "string list \<Rightarrow> environment \<Rightarrow> int \<times> run_state" where
  "main argv env =
     (case parse_arguments argv default_options [] of
        (False, opts, files, e) \<Rightarrow>
          (1, (initial_state env)
                \<lparr>cerr := e @ print_usage (case argv of [] \<Rightarrow> [] | program_name # _ \<Rightarrow> program_name)\<rparr>)
      | (True, opts, files, e) \<Rightarrow>
          (let files = (if files = [] then files @ [''-''] else files);
               (had_errors, st) = main_loop env opts files (False, initial_state env)
           in (if had_errors then 1 else 0, st)))"

section \<open>The words of the specification\<close>

text \<open>
  The definitions of this section are not taken from the program: they say, in the
  specification's terms, what the program is compared with.
\<close>

text \<open>
  Step (b) of the per-line procedure: the line is discarded. Step (d): the line gets a
  number.
\<close>

definition discarded :: "Options \<Rightarrow> string \<Rightarrow> run_state \<Rightarrow> bool" where
  "discarded opts line st = (squeeze_blanks opts \<and> line = [] \<and> last_was_blank st)"

definition numbered :: "Options \<Rightarrow> string \<Rightarrow> bool" where
  "numbered opts line = (number_lines opts \<or> (number_non_blank opts \<and> line \<noteq> []))"

text \<open>The value of a string of decimal digits, to read back what \<open>decimal\<close> writes.\<close>

definition digit_value :: "char \<Rightarrow> nat" where
  "digit_value c = of_char c - 48"

definition decimal_value :: "string \<Rightarrow> nat" where
  "decimal_value s = foldl (\<lambda>a c. 10 * a + digit_value c) 0 s"

text \<open>
  A named source fails the access check; the lines a source hands to the loop (none
  when it is skipped or cannot be opened), given what standard input still holds; the
  lines a list of sources hands over in order, standard input being used up by the first
  \<^verbatim>\<open>-\<close>; a source failed: it failed the access check or the open, or a read error
  occurred on it.
\<close>

definition access_denied :: "environment \<Rightarrow> string \<Rightarrow> bool" where
  "access_denied env filename =
     (stat_error (file_system env filename) \<noteq> None \<or> is_directory (file_system env filename)
      \<or> access_error (file_system env filename) \<noteq> None)"

definition source_lines :: "environment \<Rightarrow> string \<Rightarrow> string list \<Rightarrow> string list" where
  "source_lines env filename cin =
     (if filename = ''-'' then cin
      else if access_denied env filename \<or> open_error (file_system env filename) \<noteq> None then []
      else file_lines (file_system env filename))"

fun delivered :: "environment \<Rightarrow> string list \<Rightarrow> string list \<Rightarrow> string list" where
  "delivered env [] cin = []"
| "delivered env (filename # files) cin =
     source_lines env filename cin @ delivered env files (if filename = ''-'' then [] else cin)"

definition source_fails :: "environment \<Rightarrow> string \<Rightarrow> bool" where
  "source_fails env filename =
     (if filename = ''-'' then stdin_read_fails env
      else access_denied env filename \<or> open_error (file_system env filename) \<noteq> None
           \<or> file_bad (file_system env filename))"

text \<open>The stream state and the output sink: what numbering and squeezing act on.\<close>

definition stream_part :: "run_state \<Rightarrow> 32 word \<times> bool \<times> string" where
  "stream_part st = (line_number st, last_was_blank st, cout st)"

text \<open>
  The output in which the lines carry the numbers \<open>1, 2, ..., N\<close> in order, and the same
  with the numbers starting at \<open>k\<close>.
\<close>

definition numbered_output :: "Options \<Rightarrow> string list \<Rightarrow> string" where
  "numbered_output opts lines =
     concat (map (\<lambda>(i, l). number_prefix (int i) @ transform_line l opts @ [NL])
                 (zip [1..<Suc (length lines)] lines))"

definition numbered_from :: "nat \<Rightarrow> Options \<Rightarrow> string list \<Rightarrow> string" where
  "numbered_from k opts lines =
     concat (map (\<lambda>(i, l). number_prefix (int i) @ transform_line l opts @ [NL])
                 (zip [k..<k + length lines] lines))"

text \<open>
  The lines of a sequence that are not discarded, given whether the line before the
  sequence was blank; and the property that no blank line follows a blank line (the
  flag says whether a blank line precedes the list).
\<close>

fun emitted_lines :: "Options \<Rightarrow> bool \<Rightarrow> string list \<Rightarrow> string list" where
  "emitted_lines opts previous_blank [] = []"
| "emitted_lines opts previous_blank (l # ls) =
     (if squeeze_blanks opts \<and> l = [] \<and> previous_blank then emitted_lines opts previous_blank ls
      else l # emitted_lines opts (l = []) ls)"

fun blank_runs_squeezed :: "bool \<Rightarrow> string list \<Rightarrow> bool" where
  "blank_runs_squeezed previous_blank [] = True"
| "blank_runs_squeezed previous_blank (l # ls) =
     (\<not> (previous_blank \<and> l = []) \<and> blank_runs_squeezed (l = []) ls)"

text \<open>
  A read error occurred on a source: a read of standard input failed, or the file was
  opened and a read of it failed.
\<close>

definition read_error :: "environment \<Rightarrow> string \<Rightarrow> bool" where
  "read_error env filename =
     (if filename = ''-'' then stdin_read_fails env
      else open_error (file_system env filename) = None \<and> file_bad (file_system env filename))"

text \<open>
  The command line as the specification's argument parser reads it: the letters of the
  flag arguments (an argument of more than one character that starts with \<^verbatim>\<open>-\<close>, up
  to the first \<^verbatim>\<open>--\<close>), in order, and the operands (every other argument, \<^verbatim>\<open>--\<close>
  left out). The flag says whether \<^verbatim>\<open>--\<close> has been passed.
\<close>

fun flag_letters :: "string list \<Rightarrow> bool \<Rightarrow> string" where
  "flag_letters [] stop = []"
| "flag_letters (arg # args) stop =
     (if arg = ''--'' then flag_letters args True
      else if \<not> stop \<and> first_char arg = CHR ''-'' \<and> length arg > 1
        then tl arg @ flag_letters args stop
      else flag_letters args stop)"

fun operands :: "string list \<Rightarrow> bool \<Rightarrow> string list" where
  "operands [] stop = []"
| "operands (arg # args) stop =
     (if arg = ''--'' then operands args True
      else if \<not> stop \<and> first_char arg = CHR ''-'' \<and> length arg > 1 then operands args stop
      else arg # operands args stop)"

text \<open>
  The configuration that a string of flag letters stands for: each option is set when
  its letter occurs, and \<^verbatim>\<open>b\<close> takes precedence over \<^verbatim>\<open>n\<close>. And the options after the
  letters have been set one by one, with no precedence.
\<close>

definition configuration :: "string \<Rightarrow> Options" where
  "configuration letters =
     \<lparr>number_lines = (CHR ''n'' \<in> set letters \<and> CHR ''b'' \<notin> set letters),
      number_non_blank = (CHR ''b'' \<in> set letters),
      show_ends = (CHR ''E'' \<in> set letters),
      show_tabs = (CHR ''T'' \<in> set letters),
      squeeze_blanks = (CHR ''s'' \<in> set letters)\<rparr>"

definition set_flags :: "string \<Rightarrow> Options \<Rightarrow> Options" where
  "set_flags letters opts =
     \<lparr>number_lines = (number_lines opts \<or> CHR ''n'' \<in> set letters),
      number_non_blank = (number_non_blank opts \<or> CHR ''b'' \<in> set letters),
      show_ends = (show_ends opts \<or> CHR ''E'' \<in> set letters),
      show_tabs = (show_tabs opts \<or> CHR ''T'' \<in> set letters),
      squeeze_blanks = (squeeze_blanks opts \<or> CHR ''s'' \<in> set letters)\<rparr>"

section \<open>What the program tests\<close>

text \<open>
  The two conditions of the program that stand for a failure, as the program evaluates
  them: \<^verbatim>\<open>input->bad()\<close> after the loop of \<^verbatim>\<open>process_file\<close> over an acquired
  source, and what makes the loop of \<^verbatim>\<open>main\<close> set \<^verbatim>\<open>had_errors\<close>.
\<close>

definition stream_bad :: "environment \<Rightarrow> string \<Rightarrow> bool" where
  "stream_bad env filename =
     (if filename = ''-'' then stdin_bad env
      else open_error (file_system env filename) = None \<and> file_bad (file_system env filename))"

definition failure_detected :: "environment \<Rightarrow> string \<Rightarrow> bool" where
  "failure_detected env filename =
     (if filename = ''-'' then stdin_bad env
      else access_denied env filename \<or> open_error (file_system env filename) \<noteq> None
           \<or> file_bad (file_system env filename))"

section \<open>Example environments\<close>

text \<open>
  The environments the theorems are instantiated at. A path that does not exist, a
  readable regular file with the given lines, the two sources of the specification's
  scenario, and a standard input of 2147483648 empty lines.
\<close>

definition absent_file :: file_entry where
  "absent_file =
     \<lparr>stat_error = Some ''No such file or directory'', is_directory = False,
      access_error = Some ''No such file or directory'',
      open_error = Some ''No such file or directory'', file_lines = [], file_bad = False\<rparr>"

definition regular_file :: "string list \<Rightarrow> file_entry" where
  "regular_file ls =
     \<lparr>stat_error = None, is_directory = False, access_error = None, open_error = None,
      file_lines = ls, file_bad = False\<rparr>"

definition two_sources :: environment where
  "two_sources =
     \<lparr>file_system = (\<lambda>name. if name = ''f1'' then regular_file [''a'', ''b'']
                          else if name = ''f2'' then regular_file [''c'']
                          else absent_file),
      stdin_lines = [], stdin_read_fails = False,
      stdin_bad = False\<rparr>"

definition blank_flood :: environment where
  "blank_flood =
     \<lparr>file_system = (\<lambda>name. absent_file), stdin_lines = replicate 2147483648 [],
      stdin_read_fails = False,
      stdin_bad = False\<rparr>"

text \<open>
  Two files with a blank line on each side of their boundary, and the lines of the
  specification's squeeze scenario on standard input.
\<close>

definition blank_boundary :: environment where
  "blank_boundary =
     \<lparr>file_system = (\<lambda>name. if name = ''g1'' then regular_file [''x'', []]
                          else if name = ''g2'' then regular_file [[], ''y'']
                          else absent_file),
      stdin_lines = [''a'', [], [], ''b''], stdin_read_fails = False,
      stdin_bad = False\<rparr>"

text \<open>
  Three sources of which the second does not exist, and three of which the second
  ends in a read error after one line.
\<close>

definition missing_middle :: environment where
  "missing_middle =
     \<lparr>file_system = (\<lambda>name. if name = ''f1'' then regular_file [''a'', ''b'']
                          else if name = ''f3'' then regular_file [''c'']
                          else absent_file),
      stdin_lines = [], stdin_read_fails = False,
      stdin_bad = False\<rparr>"

definition failing_middle :: environment where
  "failing_middle =
     \<lparr>file_system = (\<lambda>name. if name = ''f1'' then regular_file [''a'', ''b'']
                          else if name = ''f2'' then (regular_file [''p''])\<lparr>file_bad := True\<rparr>
                          else if name = ''f3'' then regular_file [''c'']
                          else absent_file),
      stdin_lines = [], stdin_read_fails = False,
      stdin_bad = False\<rparr>"

text \<open>
  A file that passes the access check and then cannot be opened, with two files around
  it.
\<close>

definition vanishing_middle :: environment where
  "vanishing_middle =
     \<lparr>file_system = (\<lambda>name. if name = ''f1'' then regular_file [''a'', ''b'']
                          else if name = ''f2''
                            then (regular_file [''p''])\<lparr>open_error := Some ''Permission denied''\<rparr>
                          else if name = ''f3'' then regular_file [''c'']
                          else absent_file),
      stdin_lines = [], stdin_read_fails = False,
      stdin_bad = False\<rparr>"

text \<open>
  A standard input whose first read fails, as when it is redirected from a directory:
  \<^verbatim>\<open>std::cin\<close> reports the end of the input, no line is delivered and \<^verbatim>\<open>bad()\<close> is
  false. A file \<^verbatim>\<open>f3\<close> with the line \<^verbatim>\<open>c\<close> is there to follow.
\<close>

definition failing_stdin :: environment where
  "failing_stdin =
     \<lparr>file_system = (\<lambda>name. if name = ''f3'' then regular_file [''c''] else absent_file),
      stdin_lines = [], stdin_read_fails = True, stdin_bad = False\<rparr>"

section \<open>Properties of the line transformer\<close>

lemma foldl_append_visible: "foldl append_visible acc line = acc @ tabs_replaced line"
  by (induction line arbitrary: acc)
     (simp_all add: append_visible_def tabs_replaced_def visible_char_def)

lemma transform_line_eq:
  "transform_line line opts =
     (if show_tabs opts then tabs_replaced line else line) @ (if show_ends opts then ''$'' else [])"
  by (simp add: transform_line_def foldl_append_visible)

lemma tabs_replaced_Nil: "tabs_replaced [] = []"
  by (simp add: tabs_replaced_def)

lemma tabs_replaced_Cons:
  "tabs_replaced (c # cs) = (if c = TAB then ''^I'' else [c]) @ tabs_replaced cs"
  by (simp add: tabs_replaced_def visible_char_def)

lemma tabs_replaced_append: "tabs_replaced (xs @ ys) = tabs_replaced xs @ tabs_replaced ys"
  by (simp add: tabs_replaced_def)

lemma tabs_replaced_no_tab: "TAB \<notin> set (tabs_replaced line)"
  by (induction line) (auto simp: tabs_replaced_Nil tabs_replaced_Cons)

lemma tabs_replaced_others:
  "filter (\<lambda>c. c \<noteq> CHR ''^'' \<and> c \<noteq> CHR ''I'') (tabs_replaced line) =
   filter (\<lambda>c. c \<noteq> CHR ''^'' \<and> c \<noteq> CHR ''I'' \<and> c \<noteq> TAB) line"
  by (induction line) (auto simp: tabs_replaced_Nil tabs_replaced_Cons)

text \<open>
  Claim C3. With \<^verbatim>\<open>show_tabs\<close> set, \<^verbatim>\<open>transform_line\<close> replaces every tab with the
  two characters \<^verbatim>\<open>^I\<close>, left to right and one for one: the result is the
  concatenation, in the order of the line, of what each character stands for, and every
  character other than a tab stands for itself. With \<^verbatim>\<open>show_ends\<close> set a single
  \<^verbatim>\<open>$\<close> follows the substituted text. The equation holds for every line and every
  configuration: the function is total, and its result depends on nothing but its two
  arguments. The line \<^verbatim>\<open>x\<close>, tab, \<^verbatim>\<open>y\<close> of the specification's scenario becomes
  \<^verbatim>\<open>x^Iy$\<close>.
\<close>

theorem transform_line_spec:
  "transform_line line opts =
     (if show_tabs opts then concat (map (\<lambda>c. if c = TAB then ''^I'' else [c]) line) else line)
     @ (if show_ends opts then ''$'' else [])
   \<and> transform_line (''x'' @ [TAB] @ ''y'') (opts\<lparr>show_tabs := True, show_ends := True\<rparr>)
       = ''x^Iy$''"
proof -
  have "visible_char = (\<lambda>c. if c = TAB then ''^I'' else [c])"
    by (simp add: fun_eq_iff visible_char_def)
  then have "transform_line line opts =
     (if show_tabs opts then concat (map (\<lambda>c. if c = TAB then ''^I'' else [c]) line) else line)
     @ (if show_ends opts then ''$'' else [])"
    by (simp add: transform_line_eq tabs_replaced_def)
  moreover
  have "transform_line (''x'' @ [TAB] @ ''y'') (opts\<lparr>show_tabs := True, show_ends := True\<rparr>)
       = ''x^Iy$''"
    by (simp add: transform_line_def append_visible_def)
  ultimately show ?thesis by blast
qed

text \<open>
  Claim C8. With \<^verbatim>\<open>show_tabs\<close> and \<^verbatim>\<open>show_ends\<close> both off, \<^verbatim>\<open>transform_line\<close> returns
  the line as it is, whatever the other three options are; so transforming under such a
  configuration first changes nothing of a later transformation under any configuration.
\<close>

theorem transform_line_identity:
  "transform_line line (opts\<lparr>show_tabs := False, show_ends := False\<rparr>) = line
   \<and> transform_line (transform_line line (opts\<lparr>show_tabs := False, show_ends := False\<rparr>)) cfg
       = transform_line line cfg"
  by (simp add: transform_line_def)

section \<open>Writing a number\<close>

declare decimal.simps [simp del]

lemma replicate_numeral: "replicate (numeral k) x = x # replicate (pred_numeral k) x"
  by (simp add: numeral_eq_Suc)

lemma digit_value_nth: "n < 10 \<Longrightarrow> digit_value (''0123456789'' ! n) = n"
proof -
  have "\<forall>n<10. digit_value (''0123456789'' ! n) = n"
    unfolding digit_value_def
    by (simp add: eval_nat_numeral All_less_Suc)
  then show "n < 10 \<Longrightarrow> digit_value (''0123456789'' ! n) = n" by blast
qed

lemma decimal_value_snoc: "decimal_value (s @ [c]) = 10 * decimal_value s + digit_value c"
  by (simp add: decimal_value_def)

lemma decimal_value_decimal: "decimal_value (decimal n) = n"
proof (induction n rule: decimal.induct)
  case (1 n)
  show ?case
  proof (cases "n < 10")
    case True
    then show ?thesis
      by (simp add: decimal.simps [of n] decimal_value_def digit_value_nth)
  next
    case False
    then have "decimal_value (decimal (n div 10)) = n div 10" using 1 by simp
    with False show ?thesis
      by (simp add: decimal.simps [of n] decimal_value_snoc digit_value_nth)
  qed
qed

lemma decimal_digits: "set (decimal n) \<subseteq> set ''0123456789''"
proof (induction n rule: decimal.induct)
  case (1 n)
  have nth: "k < 10 \<Longrightarrow> ''0123456789'' ! k \<in> set ''0123456789''" for k
    by (rule nth_mem) simp
  show ?case
  proof (cases "n < 10")
    case True
    then show ?thesis using nth [of n]
      by (subst decimal.simps) simp
  next
    case False
    then have "set (decimal (n div 10)) \<subseteq> set ''0123456789''" using 1 by simp
    moreover have "''0123456789'' ! (n mod 10) \<in> set ''0123456789''" by (rule nth) simp
    ultimately show ?thesis using False
      by (subst decimal.simps) simp
  qed
qed

lemma length_number_prefix: "length (number_prefix i) = max 6 (length (show_int i)) + 1"
  by (simp add: number_prefix_def setw_right_def)

lemma sint_succ:
  fixes w :: "32 word"
  assumes "sint w < 2147483647"
  shows "sint (w + 1) = sint w + 1"
proof -
  have "- (2 ^ 31) \<le> sint w" using sint_ge [of w] by simp
  with assms show ?thesis
    by (simp add: sint_word_add signed_take_bit_int_eq_self)
qed

lemma sint_of_nat_32:
  assumes "n < 2147483648"
  shows "sint (of_nat n :: 32 word) = int n"
proof -
  have "sint (of_nat n :: 32 word) = signed_take_bit 31 (int n)"
    using sint_sbintrunc' [where 'a = 32 and bin = "int n"] by simp
  also have "\<dots> = int n"
    using assms by (simp add: signed_take_bit_int_eq_self)
  finally show ?thesis .
qed

section \<open>One line, and the loop over the lines of a stream\<close>

lemma process_line_discarded:
  "discarded opts line st \<Longrightarrow> process_line opts line st = st"
  by (simp add: process_line_def discarded_def)

lemma process_line_considered:
  "\<not> discarded opts line st \<Longrightarrow>
   process_line opts line st =
     st\<lparr>last_was_blank := (line = []),
        cout := cout st @ (if numbered opts line then number_prefix (sint (line_number st)) else [])
                @ transform_line line opts @ [NL],
        line_number := (if numbered opts line then line_number st + 1 else line_number st)\<rparr>"
  by (auto simp add: process_line_def discarded_def numbered_def Let_def)

lemma process_line_stream:
  "stream_part (process_line opts l st) =
     (if squeeze_blanks opts \<and> l = [] \<and> last_was_blank st then stream_part st
      else ((if numbered opts l then line_number st + 1 else line_number st), l = [],
            cout st @ (if numbered opts l then number_prefix (sint (line_number st)) else [])
                @ transform_line l opts @ [NL]))"
proof (cases "discarded opts l st")
  case True
  then show ?thesis by (simp add: process_line_discarded) (simp add: discarded_def)
next
  case False
  then show ?thesis by (simp add: process_line_considered stream_part_def) (simp add: discarded_def)
qed

lemma process_line_stream_cong:
  assumes "stream_part st = stream_part st'"
  shows "stream_part (process_line opts l st) = stream_part (process_line opts l st')"
proof -
  from assms have "line_number st = line_number st'" "last_was_blank st = last_was_blank st'"
    "cout st = cout st'"
    by (simp_all add: stream_part_def)
  then show ?thesis using assms
    by (simp only: process_line_stream)
qed

lemma read_lines_append:
  "read_lines opts (xs @ ys) st = read_lines opts ys (read_lines opts xs st)"
  by (induction xs arbitrary: st) simp_all

lemma read_lines_snoc:
  "read_lines opts (ls @ [l]) st = process_line opts l (read_lines opts ls st)"
  by (simp add: read_lines_append)

lemma process_line_cerr: "cerr (process_line opts line st) = cerr st"
  by (simp add: process_line_def Let_def)

lemma process_line_cin_rest: "cin_rest (process_line opts line st) = cin_rest st"
  by (simp add: process_line_def Let_def)

lemma read_lines_cerr: "cerr (read_lines opts ls st) = cerr st"
  by (induction ls arbitrary: st) (simp_all add: process_line_cerr)

lemma read_lines_cin_rest: "cin_rest (read_lines opts ls st) = cin_rest st"
  by (induction ls arbitrary: st) (simp_all add: process_line_cin_rest)

lemma process_line_cerr_update:
  "process_line opts line (st\<lparr>cerr := e\<rparr>) = (process_line opts line st)\<lparr>cerr := e\<rparr>"
  by (simp add: process_line_def Let_def)

lemma read_lines_cerr_update:
  "read_lines opts ls (st\<lparr>cerr := e\<rparr>) = (read_lines opts ls st)\<lparr>cerr := e\<rparr>"
  by (induction ls arbitrary: st) (simp_all add: process_line_cerr_update)

lemma stream_part_updates:
  "stream_part (st\<lparr>cerr := e\<rparr>) = stream_part st"
  "stream_part (st\<lparr>cin_rest := c\<rparr>) = stream_part st"
  by (simp_all add: stream_part_def)

lemma read_lines_stream_cong:
  "stream_part st = stream_part st' \<Longrightarrow>
   stream_part (read_lines opts ls st) = stream_part (read_lines opts ls st')"
proof (induction ls arbitrary: st st')
  case Nil
  then show ?case by simp
next
  case (Cons l ls)
  have "stream_part (process_line opts l st) = stream_part (process_line opts l st')"
    by (rule process_line_stream_cong [OF Cons.prems])
  then have "stream_part (read_lines opts ls (process_line opts l st)) =
             stream_part (read_lines opts ls (process_line opts l st'))"
    by (rule Cons.IH)
  then show ?case by simp
qed

section \<open>The loop over the sources\<close>

lemma check_file_access_result:
  "check_file_access env filename st =
     (if filename = ''-'' \<or> \<not> access_denied env filename then (True, st)
      else (False, st\<lparr>cerr := cerr st @ diagnostic filename
              (case stat_error (file_system env filename) of Some e \<Rightarrow> e
               | None \<Rightarrow> if is_directory (file_system env filename) then ''Is a directory''
                          else the (access_error (file_system env filename)))\<rparr>))"
  by (auto simp add: check_file_access_def access_denied_def split: option.splits)

lemma main_step_stream:
  "stream_part (snd (main_step env opts filename (h, st))) =
     stream_part (read_lines opts (source_lines env filename (cin_rest st)) st)"
  by (auto simp add: main_step_def check_file_access_result process_file_def source_lines_def
        read_lines_cerr_update stream_part_updates Let_def split: option.splits)

lemma main_step_cin:
  "cin_rest (snd (main_step env opts filename (h, st))) = (if filename = ''-'' then [] else cin_rest st)"
  by (auto simp add: main_step_def check_file_access_result process_file_def
        read_lines_cin_rest Let_def split: option.splits)

lemma main_step_had_errors:
  "fst (main_step env opts filename (h, st)) = (h \<or> failure_detected env filename)"
  by (auto simp add: main_step_def check_file_access_result process_file_def failure_detected_def
        Let_def split: option.splits)

lemma main_loop_stream:
  "stream_part (snd (main_loop env opts files (h, st))) =
     stream_part (read_lines opts (delivered env files (cin_rest st)) st)"
proof (induction files arbitrary: h st)
  case Nil
  then show ?case by simp
next
  case (Cons f files)
  obtain h' st' where step: "main_step env opts f (h, st) = (h', st')"
    by (cases "main_step env opts f (h, st)")
  have sp: "stream_part st' = stream_part (read_lines opts (source_lines env f (cin_rest st)) st)"
    using main_step_stream [of env opts f h st] step by simp
  have cin: "cin_rest st' = (if f = ''-'' then [] else cin_rest st)"
    using main_step_cin [of env opts f h st] step by simp
  have "stream_part (snd (main_loop env opts (f # files) (h, st))) =
        stream_part (read_lines opts (delivered env files (cin_rest st')) st')"
    using Cons.IH [of h' st'] step by simp
  also have "\<dots> = stream_part (read_lines opts (delivered env files (cin_rest st'))
                      (read_lines opts (source_lines env f (cin_rest st)) st))"
    by (rule read_lines_stream_cong [OF sp])
  finally show ?case
    by (simp add: read_lines_append cin)
qed

lemma main_loop_cout:
  "cout (snd (main_loop env opts files (h, st))) =
   cout (read_lines opts (delivered env files (cin_rest st)) st)"
  using main_loop_stream [of env opts files h st] by (simp add: stream_part_def)

lemma main_loop_line_number:
  "line_number (snd (main_loop env opts files (h, st))) =
   line_number (read_lines opts (delivered env files (cin_rest st)) st)"
  using main_loop_stream [of env opts files h st] by (simp add: stream_part_def)

lemma main_loop_had_errors:
  "fst (main_loop env opts files (h, st)) = (h \<or> (\<exists>f\<in>set files. failure_detected env f))"
proof (induction files arbitrary: h st)
  case Nil
  then show ?case by simp
next
  case (Cons f files)
  obtain h' st' where step: "main_step env opts f (h, st) = (h', st')"
    by (cases "main_step env opts f (h, st)")
  have "h' = (h \<or> failure_detected env f)"
    using main_step_had_errors [of env opts f h st] step by simp
  then show ?case using Cons.IH [of h' st'] step by auto
qed

lemma main_run:
  "parse_arguments argv default_options [] = (True, opts, files, e) \<Longrightarrow>
   main argv env =
     (if fst (main_loop env opts (if files = [] then [''-''] else files) (False, initial_state env))
      then 1 else 0,
      snd (main_loop env opts (if files = [] then [''-''] else files) (False, initial_state env)))"
  by (simp add: main_def Let_def split: prod.splits)

section \<open>Line numbering\<close>

lemma numbered_from_snoc:
  "numbered_from k opts (ls @ [l]) =
     numbered_from k opts ls @ number_prefix (int (k + length ls)) @ transform_line l opts @ [NL]"
  by (simp add: numbered_from_def)

lemma numbered_output_from: "numbered_output opts lines = numbered_from 1 opts lines"
  by (simp add: numbered_output_def numbered_from_def)

lemma numbered_output_snoc:
  "numbered_output opts (ls @ [l]) =
     numbered_output opts ls @ number_prefix (int (Suc (length ls))) @ transform_line l opts @ [NL]"
  by (simp add: numbered_output_from numbered_from_snoc)

lemma read_lines_number_all:
  assumes "number_lines opts" "\<not> squeeze_blanks opts"
  shows "line_number st = of_nat k \<Longrightarrow> k + length ls \<le> 2147483648 \<Longrightarrow>
         cout (read_lines opts ls st) = cout st @ numbered_from k opts ls
         \<and> line_number (read_lines opts ls st) = of_nat (k + length ls)"
proof (induction ls rule: rev_induct)
  case Nil
  then show ?case by (simp add: numbered_from_def)
next
  case (snoc l ls)
  let ?st = "read_lines opts ls st"
  have IH: "cout ?st = cout st @ numbered_from k opts ls" "line_number ?st = of_nat (k + length ls)"
    using snoc by simp_all
  have nd: "\<not> discarded opts l ?st" using assms by (simp add: discarded_def)
  have num: "numbered opts l" using assms by (simp add: numbered_def)
  have "k + length ls < 2147483648" using snoc.prems by simp
  then have s: "sint (line_number ?st) = int (k + length ls)"
    by (simp only: IH sint_of_nat_32)
  have c: "cout (process_line opts l ?st) =
             cout ?st @ number_prefix (int (k + length ls)) @ transform_line l opts @ [NL]"
    by (simp add: process_line_considered [OF nd] num s)
  have n: "line_number (process_line opts l ?st) = of_nat (k + length ls) + 1"
    by (simp add: process_line_considered [OF nd] num IH(2))
  show ?case
    by (simp add: read_lines_snoc c n IH(1) numbered_from_snoc)
qed

lemma run_number_all:
  assumes "number_lines opts" "\<not> squeeze_blanks opts"
    and "length (delivered env files (stdin_lines env)) < 2147483647"
  shows "cout (snd (main_loop env opts files (False, initial_state env))) =
           numbered_output opts (delivered env files (stdin_lines env))"
    and "sint (line_number (snd (main_loop env opts files (False, initial_state env)))) =
           1 + int (length (delivered env files (stdin_lines env)))"
proof -
  let ?ls = "delivered env files (stdin_lines env)"
  have l1: "line_number (initial_state env) = of_nat 1" by (simp add: initial_state_def)
  have b: "1 + length ?ls \<le> 2147483648" using assms(3) by simp
  note r = read_lines_number_all [OF assms(1,2) l1 b]
  have cin: "cin_rest (initial_state env) = stdin_lines env" by (simp add: initial_state_def)
  show "cout (snd (main_loop env opts files (False, initial_state env))) = numbered_output opts ?ls"
    using r by (simp add: main_loop_cout cin numbered_output_from) (simp add: initial_state_def)
  have "sint (of_nat (1 + length ?ls) :: 32 word) = int (1 + length ?ls)"
    using assms(3) by (intro sint_of_nat_32) simp
  then show "sint (line_number (snd (main_loop env opts files (False, initial_state env)))) =
           1 + int (length ?ls)"
    using r by (simp add: main_loop_line_number cin)
qed

text \<open>
  Claim C1, as amended. A line that is not discarded gets a number exactly when
  \<^verbatim>\<open>number_lines\<close> is set, or \<^verbatim>\<open>number_non_blank\<close> is set and the line is not empty;
  the number is \<^verbatim>\<open>line_number\<close> in decimal, padded on the left to six characters and
  followed by one space, and \<^verbatim>\<open>line_number\<close> is then one more (as an integer
  whenever it was below 2147483647); a discarded line leaves the state as it is. With
  \<^verbatim>\<open>number_lines\<close> set and no squeezing, a run over sources that deliver \<open>N\<close> lines
  in all, \<open>N\<close> at most 2147483646, writes the numbers \<open>1, ..., N\<close> in order and ends with
  the counter at \<open>N + 1\<close>. The digits written for a number that is not negative read
  back as that number.
\<close>

theorem line_numbering:
  "(\<not> (squeeze_blanks opts \<and> line = [] \<and> last_was_blank st) \<longrightarrow>
      cout (process_line opts line st) =
        cout st
        @ (if number_lines opts \<or> (number_non_blank opts \<and> line \<noteq> [])
           then number_prefix (sint (line_number st)) else [])
        @ transform_line line opts @ [NL]
      \<and> line_number (process_line opts line st) =
        (if number_lines opts \<or> (number_non_blank opts \<and> line \<noteq> [])
         then line_number st + 1 else line_number st)
      \<and> (sint (line_number st) < 2147483647 \<longrightarrow>
           sint (line_number (process_line opts line st)) =
             (if number_lines opts \<or> (number_non_blank opts \<and> line \<noteq> [])
              then sint (line_number st) + 1 else sint (line_number st))))
   \<and> (squeeze_blanks opts \<and> line = [] \<and> last_was_blank st \<longrightarrow> process_line opts line st = st)
   \<and> number_prefix i = replicate (6 - length (show_int i)) CHR '' '' @ show_int i @ '' ''
   \<and> (0 \<le> i \<longrightarrow> int (decimal_value (show_int i)) = i)
   \<and> (number_lines opts \<and> \<not> squeeze_blanks opts
        \<and> length (delivered env files (stdin_lines env)) < 2147483647 \<longrightarrow>
      cout (snd (main_loop env opts files (False, initial_state env))) =
        numbered_output opts (delivered env files (stdin_lines env))
      \<and> sint (line_number (snd (main_loop env opts files (False, initial_state env)))) =
        1 + int (length (delivered env files (stdin_lines env))))"
proof -
  have considered: "\<not> discarded opts line st \<Longrightarrow>
      cout (process_line opts line st) =
        cout st @ (if numbered opts line then number_prefix (sint (line_number st)) else [])
        @ transform_line line opts @ [NL]
      \<and> line_number (process_line opts line st) =
        (if numbered opts line then line_number st + 1 else line_number st)"
    by (simp add: process_line_considered)
  have "\<not> discarded opts line st \<Longrightarrow> sint (line_number st) < 2147483647 \<Longrightarrow>
      sint (line_number (process_line opts line st)) =
        (if numbered opts line then sint (line_number st) + 1 else sint (line_number st))"
    by (simp add: process_line_considered sint_succ)
  with considered have per_line: "\<not> discarded opts line st \<longrightarrow>
      cout (process_line opts line st) =
        cout st @ (if numbered opts line then number_prefix (sint (line_number st)) else [])
        @ transform_line line opts @ [NL]
      \<and> line_number (process_line opts line st) =
        (if numbered opts line then line_number st + 1 else line_number st)
      \<and> (sint (line_number st) < 2147483647 \<longrightarrow>
           sint (line_number (process_line opts line st)) =
             (if numbered opts line then sint (line_number st) + 1 else sint (line_number st)))"
    by blast
  have skipped: "discarded opts line st \<longrightarrow> process_line opts line st = st"
    by (simp add: process_line_discarded)
  have fmt: "number_prefix i = replicate (6 - length (show_int i)) CHR '' '' @ show_int i @ '' ''"
    by (simp add: number_prefix_def setw_right_def)
  have run: "number_lines opts \<and> \<not> squeeze_blanks opts
        \<and> length (delivered env files (stdin_lines env)) < 2147483647 \<longrightarrow>
      cout (snd (main_loop env opts files (False, initial_state env))) =
        numbered_output opts (delivered env files (stdin_lines env))
      \<and> sint (line_number (snd (main_loop env opts files (False, initial_state env)))) =
        1 + int (length (delivered env files (stdin_lines env)))"
    using run_number_all [of opts env files] by blast
  have val: "0 \<le> i \<longrightarrow> int (decimal_value (show_int i)) = i"
    by (simp add: show_int_def decimal_value_decimal)
  from per_line skipped fmt val run show ?thesis
    unfolding discarded_def numbered_def by blast
qed

lemmas number_prefix_eval =
  number_prefix_def setw_right_def show_int_def decimal.simps replicate_numeral

lemma delivered_two_sources:
  "delivered two_sources [''f1'', ''f2''] (stdin_lines two_sources) = [''a'', ''b'', ''c'']"
  by (simp add: source_lines_def access_denied_def two_sources_def regular_file_def)

lemma numbered_output_abc:
  "numbered_output opts [''a'', ''b'', ''c''] =
     ''     1 '' @ transform_line ''a'' opts @ [NL] @ ''     2 '' @ transform_line ''b'' opts @ [NL]
     @ ''     3 '' @ transform_line ''c'' opts @ [NL]"
  by (simp add: numbered_output_def upt_rec number_prefix_eval)

text \<open>
  Claim C1, a witness: the theorem at the specification's scenario, the sources
  \<^verbatim>\<open>f1\<close> with the lines \<^verbatim>\<open>a\<close>, \<^verbatim>\<open>b\<close> and \<^verbatim>\<open>f2\<close> with the line \<^verbatim>\<open>c\<close>, under
  \<^verbatim>\<open>-n\<close>; and at a blank line after a blank line, under \<^verbatim>\<open>-s\<close>.
\<close>

theorem line_numbering_witness:
  "cout (process_line (default_options\<lparr>number_lines := True\<rparr>) ''a'' (initial_state two_sources))
     = ''     1 a'' @ [NL]
   \<and> int (decimal_value (show_int 1)) = 1
   \<and> sint (line_number (process_line (default_options\<lparr>number_lines := True\<rparr>) ''a''
        (initial_state two_sources))) = 2
   \<and> process_line (default_options\<lparr>squeeze_blanks := True\<rparr>) []
        ((initial_state two_sources)\<lparr>last_was_blank := True\<rparr>)
       = (initial_state two_sources)\<lparr>last_was_blank := True\<rparr>
   \<and> cout (snd (main_loop two_sources (default_options\<lparr>number_lines := True\<rparr>) [''f1'', ''f2'']
        (False, initial_state two_sources)))
     = ''     1 a'' @ [NL] @ ''     2 b'' @ [NL] @ ''     3 c'' @ [NL]
   \<and> sint (line_number (snd (main_loop two_sources (default_options\<lparr>number_lines := True\<rparr>)
        [''f1'', ''f2''] (False, initial_state two_sources)))) = 4"
proof -
  let ?n = "default_options\<lparr>number_lines := True\<rparr>"
  let ?s = "default_options\<lparr>squeeze_blanks := True\<rparr>"
  have n: "number_lines ?n" "\<not> squeeze_blanks ?n" "\<not> show_tabs ?n" "\<not> show_ends ?n"
    by (simp_all add: default_options_def)
  have i: "line_number (initial_state two_sources) = 1" "cout (initial_state two_sources) = []"
    "\<not> last_was_blank (initial_state two_sources)"
    by (simp_all add: initial_state_def)
  have t: "transform_line l ?n = l" for l
    by (simp add: transform_line_def n)
  have s: "squeeze_blanks ?s" by (simp add: default_options_def)
  from line_numbering [of ?n "''a''" "initial_state two_sources" 1 two_sources "[''f1'', ''f2'']",
      unfolded delivered_two_sources]
  have "cout (process_line ?n ''a'' (initial_state two_sources)) = ''     1 a'' @ [NL]"
    and "int (decimal_value (show_int 1)) = 1"
    and "sint (line_number (process_line ?n ''a'' (initial_state two_sources))) = 2"
    and "cout (snd (main_loop two_sources ?n [''f1'', ''f2''] (False, initial_state two_sources)))
           = ''     1 a'' @ [NL] @ ''     2 b'' @ [NL] @ ''     3 c'' @ [NL]"
    and "sint (line_number (snd (main_loop two_sources ?n [''f1'', ''f2'']
           (False, initial_state two_sources)))) = 4"
    by (simp_all add: n i t numbered_output_abc number_prefix_eval del: main_loop.simps)
  moreover
  from line_numbering [of ?s "[]" "(initial_state two_sources)\<lparr>last_was_blank := True\<rparr>"]
  have "process_line ?s [] ((initial_state two_sources)\<lparr>last_was_blank := True\<rparr>)
          = (initial_state two_sources)\<lparr>last_was_blank := True\<rparr>"
    by (simp add: s)
  ultimately show ?thesis by blast
qed

lemma parse_n:
  "parse_arguments [''mycat'', ''-n''] default_options [] =
     (True, default_options\<lparr>number_lines := True\<rparr>, [], [])"
  by (simp add: parse_arguments_def first_char_def default_options_def)

text \<open>
  Claim C1 as the specification states it fails: \<^verbatim>\<open>mycat -n\<close> on a standard input of
  2147483648 empty lines does not write the numbers 1, ..., 2147483648. The counter is
  an \<^verbatim>\<open>int\<close>; after 2147483647 it holds -2147483648, and that is the number the
  last line gets.
\<close>

theorem line_numbering_counterexample:
  "cout (snd (main [''mycat'', ''-n''] blank_flood)) \<noteq>
     numbered_output (default_options\<lparr>number_lines := True\<rparr>) (stdin_lines blank_flood)
   \<and> drop (length (cout (snd (main [''mycat'', ''-n''] blank_flood))) - 13)
        (cout (snd (main [''mycat'', ''-n''] blank_flood))) = ''-2147483648 '' @ [NL]"
proof -
  let ?n = "default_options\<lparr>number_lines := True\<rparr>"
  let ?xs = "replicate 2147483647 ([] :: string)"
  let ?st = "read_lines ?n ?xs (initial_state blank_flood)"
  have n: "number_lines ?n" "\<not> squeeze_blanks ?n" "\<not> show_tabs ?n" "\<not> show_ends ?n"
    by (simp_all add: default_options_def)
  have p_min: "number_prefix (- 2147483648) = ''-2147483648 ''"
    by (simp add: number_prefix_eval)
  have p_max: "number_prefix 2147483648 = ''2147483648 ''"
    by (simp add: number_prefix_eval)
  have "(2147483648 :: nat) = Suc 2147483647" by simp
  then have "replicate 2147483648 ([] :: string) = ?xs @ [[]]"
    by (simp only: replicate_Suc replicate_append_same)
  then have lines: "stdin_lines blank_flood = ?xs @ [[]]"
    by (simp add: blank_flood_def)
  have "delivered blank_flood [''-''] (stdin_lines blank_flood) = ?xs @ [[]]"
    by (simp add: source_lines_def lines)
  moreover have "cin_rest (initial_state blank_flood) = stdin_lines blank_flood"
    by (simp add: initial_state_def)
  ultimately have out:
    "cout (snd (main [''mycat'', ''-n''] blank_flood)) = cout (process_line ?n [] ?st)"
    by (simp add: main_run [OF parse_n] main_loop_cout read_lines_snoc del: main_loop.simps)
  have l1: "line_number (initial_state blank_flood) = of_nat 1" by (simp add: initial_state_def)
  have c0: "cout (initial_state blank_flood) = []" by (simp add: initial_state_def)
  have b: "1 + length ?xs \<le> 2147483648" by simp
  from read_lines_number_all [OF n(1,2) l1 b]
  have c: "cout ?st = numbered_output ?n ?xs" and l: "line_number ?st = 2147483648"
    by (simp_all add: numbered_output_from c0)
  have nd: "\<not> discarded ?n [] ?st" by (simp add: discarded_def n)
  have actual: "cout (process_line ?n [] ?st) = numbered_output ?n ?xs @ ''-2147483648 '' @ [NL]"
    by (simp add: process_line_considered [OF nd] numbered_def n c l transform_line_def p_min)
  have "int (Suc (length ?xs)) = 2147483648" by simp
  then have expected: "numbered_output ?n (stdin_lines blank_flood) =
                  numbered_output ?n ?xs @ ''2147483648 '' @ [NL]"
    by (simp add: lines numbered_output_snoc transform_line_def n p_max del: length_replicate)
  have "cout (snd (main [''mycat'', ''-n''] blank_flood)) \<noteq>
        numbered_output ?n (stdin_lines blank_flood)"
    unfolding out actual expected by simp
  moreover have "drop (length (cout (snd (main [''mycat'', ''-n''] blank_flood))) - 13)
        (cout (snd (main [''mycat'', ''-n''] blank_flood))) = ''-2147483648 '' @ [NL]"
    unfolding out actual by simp
  ultimately show ?thesis by blast
qed

section \<open>Squeezing blank lines\<close>

lemma transform_line_squeeze:
  "transform_line l (opts\<lparr>squeeze_blanks := b\<rparr>) = transform_line l opts"
  by (simp add: transform_line_def)

lemma process_line_no_squeeze:
  "\<not> discarded opts l st \<Longrightarrow>
   process_line (opts\<lparr>squeeze_blanks := False\<rparr>) l st = process_line opts l st"
  by (auto simp add: process_line_def discarded_def transform_line_squeeze)

lemma process_line_last_was_blank:
  "\<not> discarded opts l st \<Longrightarrow> last_was_blank (process_line opts l st) = (l = [])"
  by (simp add: process_line_considered)

lemma read_lines_emitted:
  "read_lines opts ls st =
   read_lines (opts\<lparr>squeeze_blanks := False\<rparr>) (emitted_lines opts (last_was_blank st) ls) st"
proof (induction ls arbitrary: st)
  case Nil
  show ?case by simp
next
  case (Cons l ls)
  show ?case
  proof (cases "discarded opts l st")
    case True
    then have "process_line opts l st = st" by (rule process_line_discarded)
    moreover from True have "emitted_lines opts (last_was_blank st) (l # ls) =
        emitted_lines opts (last_was_blank st) ls"
      by (simp add: discarded_def)
    ultimately show ?thesis using Cons.IH [of st] by simp
  next
    case False
    then have e: "emitted_lines opts (last_was_blank st) (l # ls) =
        l # emitted_lines opts (l = []) ls"
      by (auto simp add: discarded_def)
    have "read_lines opts (l # ls) st = read_lines opts ls (process_line opts l st)" by simp
    also have "\<dots> = read_lines (opts\<lparr>squeeze_blanks := False\<rparr>)
        (emitted_lines opts (l = []) ls) (process_line opts l st)"
      by (simp add: Cons.IH [of "process_line opts l st"] process_line_last_was_blank [OF False])
    finally show ?thesis
      by (simp add: e process_line_no_squeeze [OF False] del: emitted_lines.simps)
  qed
qed

lemma emitted_lines_squeezed:
  "squeeze_blanks opts \<Longrightarrow> blank_runs_squeezed b (emitted_lines opts b ls)"
  by (induction ls arbitrary: b) auto

lemma blank_runs_squeezed_nth:
  "blank_runs_squeezed b ls \<Longrightarrow> Suc i < length ls \<Longrightarrow> \<not> (ls ! i = [] \<and> ls ! Suc i = [])"
proof (induction ls arbitrary: b i)
  case Nil
  then show ?case by simp
next
  case (Cons l ls)
  show ?case
  proof (cases i)
    case 0
    with Cons.prems show ?thesis by (cases ls) auto
  next
    case (Suc j)
    with Cons.prems have "blank_runs_squeezed (l = []) ls" "Suc j < length ls" by simp_all
    then have "\<not> (ls ! j = [] \<and> ls ! Suc j = [])" by (rule Cons.IH)
    with Suc show ?thesis by simp
  qed
qed

lemma emitted_lines_first: "take 1 (emitted_lines opts False ls) = take 1 ls"
  by (cases ls) simp_all

text \<open>
  Claim C2. With \<^verbatim>\<open>squeeze_blanks\<close> set, a blank line that follows a blank line leaves
  the whole state as it was: no number is used, nothing is written, and
  \<^verbatim>\<open>last_was_blank\<close> keeps its value. A run is the run without squeezing over the
  lines that are not discarded; with \<^verbatim>\<open>squeeze_blanks\<close> set no two neighbours among
  these are both blank, and the first line of the run is always among them.
\<close>

theorem blank_squeezing:
  "(squeeze_blanks opts \<and> line = [] \<and> last_was_blank st \<longrightarrow> process_line opts line st = st)
   \<and> stream_part (snd (main_loop env opts files (False, initial_state env))) =
       stream_part (read_lines (opts\<lparr>squeeze_blanks := False\<rparr>)
         (emitted_lines opts False (delivered env files (stdin_lines env))) (initial_state env))
   \<and> (squeeze_blanks opts \<longrightarrow>
        (\<forall>i. Suc i < length (emitted_lines opts False (delivered env files (stdin_lines env))) \<longrightarrow>
           \<not> (emitted_lines opts False (delivered env files (stdin_lines env)) ! i = []
              \<and> emitted_lines opts False (delivered env files (stdin_lines env)) ! Suc i = [])))
   \<and> take 1 (emitted_lines opts False (delivered env files (stdin_lines env))) =
       take 1 (delivered env files (stdin_lines env))
   \<and> last_was_blank (initial_state env) = False"
proof -
  let ?ls = "delivered env files (stdin_lines env)"
  have a: "squeeze_blanks opts \<and> line = [] \<and> last_was_blank st \<longrightarrow> process_line opts line st = st"
    by (simp add: process_line_discarded discarded_def)
  have i: "cin_rest (initial_state env) = stdin_lines env" "last_was_blank (initial_state env) = False"
    by (simp_all add: initial_state_def)
  have "stream_part (snd (main_loop env opts files (False, initial_state env))) =
        stream_part (read_lines opts ?ls (initial_state env))"
    by (simp only: main_loop_stream i)
  also have "read_lines opts ?ls (initial_state env) =
        read_lines (opts\<lparr>squeeze_blanks := False\<rparr>) (emitted_lines opts False ?ls) (initial_state env)"
    using read_lines_emitted [of opts ?ls "initial_state env"] by (simp only: i)
  finally have b: "stream_part (snd (main_loop env opts files (False, initial_state env))) =
       stream_part (read_lines (opts\<lparr>squeeze_blanks := False\<rparr>)
         (emitted_lines opts False ?ls) (initial_state env))" .
  have c: "squeeze_blanks opts \<longrightarrow>
        (\<forall>i. Suc i < length (emitted_lines opts False ?ls) \<longrightarrow>
           \<not> (emitted_lines opts False ?ls ! i = [] \<and> emitted_lines opts False ?ls ! Suc i = []))"
    using blank_runs_squeezed_nth [OF emitted_lines_squeezed] by blast
  from a b c emitted_lines_first i(2) show ?thesis by blast
qed

lemma delivered_blank_boundary_stdin:
  "delivered blank_boundary [''-''] (stdin_lines blank_boundary) = [''a'', [], [], ''b'']"
  by (simp add: source_lines_def blank_boundary_def)

text \<open>
  Claim C2, a witness: the theorem at the scenario of the specification: the lines \<^verbatim>\<open>a\<close>, two blank
  lines and \<^verbatim>\<open>b\<close> on standard input, under \<^verbatim>\<open>-s\<close>.
\<close>

theorem blank_squeezing_witness:
  "process_line (default_options\<lparr>squeeze_blanks := True\<rparr>) []
       ((initial_state blank_boundary)\<lparr>last_was_blank := True\<rparr>)
     = (initial_state blank_boundary)\<lparr>last_was_blank := True\<rparr>
   \<and> emitted_lines (default_options\<lparr>squeeze_blanks := True\<rparr>) False
       (delivered blank_boundary [''-''] (stdin_lines blank_boundary)) = [''a'', [], ''b'']
   \<and> cout (snd (main_loop blank_boundary (default_options\<lparr>squeeze_blanks := True\<rparr>) [''-'']
       (False, initial_state blank_boundary))) = ''a'' @ [NL, NL] @ ''b'' @ [NL]
   \<and> \<not> (emitted_lines (default_options\<lparr>squeeze_blanks := True\<rparr>) False
           (delivered blank_boundary [''-''] (stdin_lines blank_boundary)) ! 1 = []
        \<and> emitted_lines (default_options\<lparr>squeeze_blanks := True\<rparr>) False
           (delivered blank_boundary [''-''] (stdin_lines blank_boundary)) ! Suc 1 = [])"
proof -
  let ?s = "default_options\<lparr>squeeze_blanks := True\<rparr>"
  let ?st = "(initial_state blank_boundary)\<lparr>last_was_blank := True\<rparr>"
  have s: "squeeze_blanks ?s" "\<not> number_lines ?s" "\<not> number_non_blank ?s" "\<not> show_tabs ?s"
    "\<not> show_ends ?s"
    by (simp_all add: default_options_def)
  have e: "emitted_lines ?s False [''a'', [], [], ''b''] = [''a'', [], ''b'']"
    by (simp add: s)
  have r: "cout (read_lines (?s\<lparr>squeeze_blanks := False\<rparr>) [''a'', [], ''b'']
             (initial_state blank_boundary)) = ''a'' @ [NL, NL] @ ''b'' @ [NL]"
    by (simp add: process_line_def transform_line_def default_options_def initial_state_def)
  note w = blank_squeezing [of ?s "[]" ?st blank_boundary "[''-'']",
      unfolded delivered_blank_boundary_stdin e]
  from w have "process_line ?s [] ?st = ?st"
    by (simp add: s)
  moreover from w have "cout (snd (main_loop blank_boundary ?s [''-'']
       (False, initial_state blank_boundary))) = ''a'' @ [NL, NL] @ ''b'' @ [NL]"
    using r by (simp add: stream_part_def del: main_loop.simps read_lines.simps)
  moreover from w have "\<not> ([''a'', [], ''b''] ! 1 = ([] :: string) \<and> [''a'', [], ''b''] ! Suc 1 = [])"
    using s(1) by (simp del: main_loop.simps read_lines.simps)
  ultimately show ?thesis
    unfolding delivered_blank_boundary_stdin e by blast
qed

section \<open>One state across the sources\<close>

lemma main_loop_append:
  "main_loop env opts (files1 @ files2) hs = main_loop env opts files2 (main_loop env opts files1 hs)"
  by (induction files1 arbitrary: hs) simp_all

lemma parse_n_f1_f2:
  "parse_arguments [''mycat'', ''-n'', ''f1'', ''f2''] default_options [] =
     (True, default_options\<lparr>number_lines := True\<rparr>, [''f1'', ''f2''], [])"
  by (simp add: parse_arguments_def first_char_def default_options_def)

lemma parse_s_g1_g2:
  "parse_arguments [''mycat'', ''-s'', ''g1'', ''g2''] default_options [] =
     (True, default_options\<lparr>squeeze_blanks := True\<rparr>, [''g1'', ''g2''], [])"
  by (simp add: parse_arguments_def first_char_def default_options_def)

lemma regular_file_step:
  assumes "filename \<noteq> ''-''" "file_system env filename = regular_file ls"
  shows "main_step env opts filename (h, st) = (h, read_lines opts ls st)"
  using assms
  by (simp add: main_step_def check_file_access_def process_file_def regular_file_def)

lemma number_prefix_1_to_3:
  "number_prefix 1 = ''     1 ''" "number_prefix 2 = ''     2 ''" "number_prefix 3 = ''     3 ''"
  by (simp_all add: number_prefix_eval)

lemma scenario_two_sources:
  "main [''mycat'', ''-n'', ''f1'', ''f2''] two_sources =
     (0, \<lparr>line_number = 4, last_was_blank = False,
          cout = ''     1 a'' @ [NL] @ ''     2 b'' @ [NL] @ ''     3 c'' @ [NL],
          cerr = [], cin_rest = []\<rparr>)"
proof -
  have f1: "file_system two_sources ''f1'' = regular_file [''a'', ''b'']"
    and f2: "file_system two_sources ''f2'' = regular_file [''c'']"
    by (simp_all add: two_sources_def)
  have "main_loop two_sources (default_options\<lparr>number_lines := True\<rparr>) [''f1'', ''f2'']
          (False, initial_state two_sources) =
        (False, read_lines (default_options\<lparr>number_lines := True\<rparr>) [''a'', ''b'', ''c'']
          (initial_state two_sources))"
    by (simp add: regular_file_step [OF _ f1] regular_file_step [OF _ f2] del: read_lines.simps)
       simp
  moreover have "read_lines (default_options\<lparr>number_lines := True\<rparr>) [''a'', ''b'', ''c'']
          (initial_state two_sources) =
        \<lparr>line_number = 4, last_was_blank = False,
          cout = ''     1 a'' @ [NL] @ ''     2 b'' @ [NL] @ ''     3 c'' @ [NL],
          cerr = [], cin_rest = []\<rparr>"
    by (simp add: process_line_def transform_line_def default_options_def initial_state_def
          two_sources_def number_prefix_1_to_3)
  ultimately show ?thesis
    by (simp add: main_run [OF parse_n_f1_f2] del: main_loop.simps read_lines.simps)
qed

lemma scenario_blank_boundary:
  "main [''mycat'', ''-s'', ''g1'', ''g2''] blank_boundary =
     (0, \<lparr>line_number = 1, last_was_blank = False,
          cout = ''x'' @ [NL, NL] @ ''y'' @ [NL],
          cerr = [], cin_rest = [''a'', [], [], ''b'']\<rparr>)"
proof -
  have g1: "file_system blank_boundary ''g1'' = regular_file [''x'', []]"
    and g2: "file_system blank_boundary ''g2'' = regular_file [[], ''y'']"
    by (simp_all add: blank_boundary_def)
  have "main_loop blank_boundary (default_options\<lparr>squeeze_blanks := True\<rparr>) [''g1'', ''g2'']
          (False, initial_state blank_boundary) =
        (False, read_lines (default_options\<lparr>squeeze_blanks := True\<rparr>) [''x'', [], [], ''y'']
          (initial_state blank_boundary))"
    by (simp add: regular_file_step [OF _ g1] regular_file_step [OF _ g2] del: read_lines.simps)
       simp
  moreover have "read_lines (default_options\<lparr>squeeze_blanks := True\<rparr>) [''x'', [], [], ''y'']
          (initial_state blank_boundary) =
        \<lparr>line_number = 1, last_was_blank = False,
          cout = ''x'' @ [NL, NL] @ ''y'' @ [NL],
          cerr = [], cin_rest = [''a'', [], [], ''b'']\<rparr>"
    by (simp add: process_line_def transform_line_def default_options_def initial_state_def
          blank_boundary_def)
  ultimately show ?thesis
    by (simp add: main_run [OF parse_s_g1_g2] del: main_loop.simps read_lines.simps)
qed

text \<open>
  Claim C4. The line number, the blank flag and the output at the end of a run over a
  list of sources are those of the one loop over all the lines the sources deliver, in
  the order of the list, started once from \<^verbatim>\<open>line_number = 1\<close> and
  \<^verbatim>\<open>last_was_blank = false\<close>; a run over two lists of sources in a row is the run over
  the second list from the state the first left. The sources \<^verbatim>\<open>f1\<close> with the lines
  \<^verbatim>\<open>a\<close>, \<^verbatim>\<open>b\<close> and \<^verbatim>\<open>f2\<close> with the line \<^verbatim>\<open>c\<close> get the numbers 1, 2, 3 under
  \<^verbatim>\<open>-n\<close>; of \<^verbatim>\<open>g1\<close> ending in a blank line and \<^verbatim>\<open>g2\<close> starting with one, the
  second blank line is squeezed under \<^verbatim>\<open>-s\<close>.
\<close>

theorem continuous_state:
  "stream_part (snd (main_loop env opts files (False, initial_state env))) =
     stream_part (read_lines opts (delivered env files (stdin_lines env)) (initial_state env))
   \<and> main_loop env opts (files1 @ files2) hs =
       main_loop env opts files2 (main_loop env opts files1 hs)
   \<and> main [''mycat'', ''-n'', ''f1'', ''f2''] two_sources =
       (0, \<lparr>line_number = 4, last_was_blank = False,
            cout = ''     1 a'' @ [NL] @ ''     2 b'' @ [NL] @ ''     3 c'' @ [NL],
            cerr = [], cin_rest = []\<rparr>)
   \<and> main [''mycat'', ''-s'', ''g1'', ''g2''] blank_boundary =
       (0, \<lparr>line_number = 1, last_was_blank = False,
            cout = ''x'' @ [NL, NL] @ ''y'' @ [NL],
            cerr = [], cin_rest = [''a'', [], [], ''b'']\<rparr>)"
proof -
  have "cin_rest (initial_state env) = stdin_lines env" by (simp add: initial_state_def)
  then have "stream_part (snd (main_loop env opts files (False, initial_state env))) =
     stream_part (read_lines opts (delivered env files (stdin_lines env)) (initial_state env))"
    using main_loop_stream [of env opts files False "initial_state env"] by simp
  with main_loop_append scenario_two_sources scenario_blank_boundary show ?thesis by blast
qed

section \<open>Failing sources and the exit code\<close>

text \<open>
  A source on which the program detects a failure does not end the run: the loop goes on
  with the remaining sources, with \<^verbatim>\<open>had_errors\<close> set. The exit code is 1 when the
  arguments do not parse or the program detects a failure on a source, and 0 otherwise;
  and the output of a run is that of the loop over the lines of all the sources that
  deliver any.
\<close>

lemma main_step_fails:
  "failure_detected env filename \<Longrightarrow>
   main_step env opts filename (h, st) = (True, snd (main_step env opts filename (h, st)))"
  using main_step_had_errors [of env opts filename h st]
  by (cases "main_step env opts filename (h, st)") simp

lemma main_loop_continues:
  "failure_detected env filename \<Longrightarrow>
   main_loop env opts (filename # files) (h, st) =
     main_loop env opts files (True, snd (main_step env opts filename (h, st)))"
  using main_step_fails [of env filename opts h st] by simp

lemma main_exit_code:
  assumes "parse_arguments argv default_options [] = (ok, opts, files, e)"
  shows "fst (main argv env) =
           (if ok \<and> \<not> (\<exists>f\<in>set (if files = [] then [''-''] else files). failure_detected env f)
            then 0 else 1)"
proof (cases ok)
  case True
  with assms show ?thesis
    by (simp add: main_run main_loop_had_errors del: main_loop.simps)
next
  case False
  with assms show ?thesis by (simp add: main_def)
qed

lemma main_stream:
  assumes "parse_arguments argv default_options [] = (True, opts, files, e)"
  shows "stream_part (snd (main argv env)) =
     stream_part (read_lines opts
       (delivered env (if files = [] then [''-''] else files) (stdin_lines env)) (initial_state env))"
proof -
  have "cin_rest (initial_state env) = stdin_lines env" by (simp add: initial_state_def)
  then show ?thesis
    using main_loop_stream [of env opts "if files = [] then [''-''] else files" False
        "initial_state env"]
    by (simp add: main_run [OF assms] del: main_loop.simps)
qed

text \<open>
  What the program detects is what the specification counts as a failure, for every
  source but standard input; on standard input the program detects \<^verbatim>\<open>bad()\<close>, which a
  failed read does not set.
\<close>

lemma failure_detected_named:
  "filename \<noteq> ''-'' \<Longrightarrow> failure_detected env filename = source_fails env filename"
  by (simp add: failure_detected_def source_fails_def)

lemma failure_detected_stdin: "failure_detected env ''-'' = stdin_bad env"
  by (simp add: failure_detected_def)

lemma parse_three_files:
  "parse_arguments [''mycat'', ''f1'', ''nope'', ''f3''] default_options [] =
     (True, default_options, [''f1'', ''nope'', ''f3''], [])"
  by (simp add: parse_arguments_def first_char_def default_options_def)

lemma parse_help:
  "parse_arguments [''mycat'', ''-h''] default_options [] = (False, default_options, [], [])"
  by (simp add: parse_arguments_def first_char_def)

lemma missing_middle_fails:
  "failure_detected missing_middle ''nope''" "\<not> failure_detected missing_middle ''f1''"
  "\<not> failure_detected missing_middle ''f3''"
  by (simp_all add: failure_detected_def access_denied_def missing_middle_def regular_file_def
        absent_file_def)

lemma missing_middle_delivered:
  "delivered missing_middle [''f1'', ''nope'', ''f3''] (stdin_lines missing_middle) =
     [''a'', ''b'', ''c'']"
  by (simp add: source_lines_def access_denied_def missing_middle_def regular_file_def
        absent_file_def)

lemma plain_abc:
  "cout (read_lines default_options [''a'', ''b'', ''c''] (initial_state env)) =
     ''a'' @ [NL] @ ''b'' @ [NL] @ ''c'' @ [NL]"
  by (simp add: process_line_def transform_line_def default_options_def initial_state_def)

text \<open>
  The scenario of the specification: of three sources the second does not exist; the
  other two are written in full and the exit code is 1. With \<^verbatim>\<open>-h\<close> the exit code is
  1 as well.
\<close>

lemma missing_middle_run:
  "fst (main [''mycat'', ''f1'', ''nope'', ''f3''] missing_middle) = 1"
  "cout (snd (main [''mycat'', ''f1'', ''nope'', ''f3''] missing_middle)) =
     ''a'' @ [NL] @ ''b'' @ [NL] @ ''c'' @ [NL]"
  "fst (main [''mycat'', ''-h''] missing_middle) = 1"
proof -
  show "fst (main [''mycat'', ''f1'', ''nope'', ''f3''] missing_middle) = 1"
    using main_exit_code [OF parse_three_files, of missing_middle] missing_middle_fails by simp
  have "stream_part (snd (main [''mycat'', ''f1'', ''nope'', ''f3''] missing_middle))
      = stream_part (read_lines default_options [''a'', ''b'', ''c''] (initial_state missing_middle))"
    using main_stream [OF parse_three_files, of missing_middle] missing_middle_delivered
    by (simp del: delivered.simps read_lines.simps)
  then show "cout (snd (main [''mycat'', ''f1'', ''nope'', ''f3''] missing_middle)) =
     ''a'' @ [NL] @ ''b'' @ [NL] @ ''c'' @ [NL]"
    using plain_abc [of missing_middle] by (simp add: stream_part_def del: read_lines.simps)
  show "fst (main [''mycat'', ''-h''] missing_middle) = 1"
    using main_exit_code [OF parse_help, of missing_middle] by simp
qed

lemma parse_stdin_f3:
  "parse_arguments [''mycat'', ''-'', ''f3''] default_options [] =
     (True, default_options, [''-'', ''f3''], [])"
  by (simp add: parse_arguments_def first_char_def default_options_def)

lemma parse_f2_f3:
  "parse_arguments [''mycat'', ''f2'', ''f3''] default_options [] =
     (True, default_options, [''f2'', ''f3''], [])"
  by (simp add: parse_arguments_def first_char_def default_options_def)

lemma failing_stdin_run:
  "main [''mycat'', ''-'', ''f3''] failing_stdin =
     (0, \<lparr>line_number = 1, last_was_blank = False, cout = ''c'' @ [NL], cerr = [],
          cin_rest = []\<rparr>)"
proof -
  have f3: "file_system failing_stdin ''f3'' = regular_file [''c'']"
    by (simp add: failing_stdin_def)
  have "main_step failing_stdin default_options ''-'' (False, initial_state failing_stdin) =
          (False, initial_state failing_stdin)"
    by (simp add: main_step_def process_file_def initial_state_def failing_stdin_def)
  then have "main_loop failing_stdin default_options [''-'', ''f3'']
          (False, initial_state failing_stdin) =
        (False, read_lines default_options [''c''] (initial_state failing_stdin))"
    by (simp add: regular_file_step [OF _ f3] del: read_lines.simps)
  moreover have "read_lines default_options [''c''] (initial_state failing_stdin) =
        \<lparr>line_number = 1, last_was_blank = False, cout = ''c'' @ [NL], cerr = [], cin_rest = []\<rparr>"
    by (simp add: process_line_def transform_line_def default_options_def initial_state_def
          failing_stdin_def)
  ultimately show ?thesis
    by (simp add: main_run [OF parse_stdin_f3] del: main_loop.simps read_lines.simps)
qed

lemma failing_middle_exit_code: "fst (main [''mycat'', ''f2'', ''f3''] failing_middle) = 1"
proof -
  have "failure_detected failing_middle ''f2''"
    by (simp add: failure_detected_def failing_middle_def regular_file_def)
  then show ?thesis
    using main_exit_code [OF parse_f2_f3, of failing_middle] by simp
qed

text \<open>
  Claim C5. The claim holds of every failure the program detects (\<open>main_loop_continues\<close>,
  \<open>main_exit_code\<close>, \<open>main_stream\<close>), and the program detects every failure of a named
  source. It does not detect a read error on standard input, and there the exit code is
  not the one the claim states: \<^verbatim>\<open>mycat - f3\<close> with a standard input whose read fails
  goes on to write \<^verbatim>\<open>f3\<close>, writes no diagnostic and exits with 0, although a source
  had a read error. A named file \<^verbatim>\<open>f2\<close> with a read error gives the exit code 1.
\<close>

theorem stdin_read_error_exit_code:
  "source_fails failing_stdin ''-''
   \<and> main [''mycat'', ''-'', ''f3''] failing_stdin =
       (0, \<lparr>line_number = 1, last_was_blank = False, cout = ''c'' @ [NL], cerr = [],
            cin_rest = []\<rparr>)
   \<and> source_fails failing_middle ''f2''
   \<and> fst (main [''mycat'', ''f2'', ''f3''] failing_middle) = 1"
proof -
  have "source_fails failing_stdin ''-''"
    by (simp add: source_fails_def failing_stdin_def)
  moreover have "source_fails failing_middle ''f2''"
    by (simp add: source_fails_def failing_middle_def regular_file_def)
  ultimately show ?thesis
    using failing_stdin_run failing_middle_exit_code by blast
qed

text \<open>
  Claim C5, a witness: the theorem gives the exit code 0 of \<^verbatim>\<open>mycat - f3\<close> on a standard
  input whose read fails.
\<close>

theorem stdin_read_error_exit_code_witness:
  "stdin_read_fails failing_stdin \<and> fst (main [''mycat'', ''-'', ''f3''] failing_stdin) = 0"
  using stdin_read_error_exit_code by (simp add: failing_stdin_def)

section \<open>Read errors\<close>

lemma process_file_bad:
  assumes "stream_bad env filename"
  shows "fst (process_file env filename opts st) = False"
    and "cerr (snd (process_file env filename opts st)) =
           cerr st @ ''mycat: '' @ filename @ '': Read error'' @ [NL]"
    and "stream_part (snd (process_file env filename opts st)) =
           stream_part (read_lines opts
             (if filename = ''-'' then cin_rest st else file_lines (file_system env filename)) st)"
  using assms
  by (auto simp add: stream_bad_def process_file_def diagnostic_def read_lines_cerr
        stream_part_updates Let_def split: if_splits)

lemma process_file_not_bad:
  assumes "\<not> stream_bad env filename"
    "filename = ''-'' \<or> open_error (file_system env filename) = None"
  shows "fst (process_file env filename opts st) = True"
    and "cerr (snd (process_file env filename opts st)) = cerr st"
  using assms
  by (auto simp add: stream_bad_def process_file_def read_lines_cerr Let_def split: if_splits)

lemma main_step_accessible:
  "filename = ''-'' \<or> \<not> access_denied env filename \<Longrightarrow>
   main_step env opts filename (h, st) =
     (h \<or> \<not> fst (process_file env filename opts st), snd (process_file env filename opts st))"
  by (cases "process_file env filename opts st")
     (auto simp add: main_step_def check_file_access_result)

text \<open>
  When the loop over a source ends with \<^verbatim>\<open>bad()\<close>, \<^verbatim>\<open>process_file\<close> returns
  \<^verbatim>\<open>false\<close>, the line \<^verbatim>\<open>mycat: <name>: Read error\<close> is appended to \<^verbatim>\<open>std::cerr\<close>,
  the lines read before have been processed, and the loop of \<^verbatim>\<open>main\<close> goes on with the
  next source, with \<^verbatim>\<open>had_errors\<close> set. For a named file that was opened, \<^verbatim>\<open>bad()\<close>
  is the read error of the specification.
\<close>

lemma bad_stream_reported:
  assumes "stream_bad env filename"
  shows "fst (process_file env filename opts st) = False"
    and "cerr (snd (process_file env filename opts st)) =
          cerr st @ ''mycat: '' @ filename @ '': Read error'' @ [NL]"
    and "filename = ''-'' \<or> \<not> access_denied env filename \<Longrightarrow>
        main_loop env opts (filename # files) (h, st) =
          main_loop env opts files (True, snd (process_file env filename opts st))"
  using assms by (simp_all add: main_step_accessible process_file_bad)

lemma stream_bad_named:
  "filename \<noteq> ''-'' \<Longrightarrow> stream_bad env filename = read_error env filename"
  by (simp add: stream_bad_def read_error_def)

lemma stream_bad_stdin: "stream_bad env ''-'' = stdin_bad env"
  by (simp add: stream_bad_def)

lemma failing_middle_f2_run:
  "process_file failing_middle ''f2'' default_options (initial_state failing_middle) =
     (False, \<lparr>line_number = 1, last_was_blank = False, cout = ''p'' @ [NL],
              cerr = ''mycat: f2: Read error'' @ [NL], cin_rest = []\<rparr>)"
  by (simp add: process_file_def failing_middle_def regular_file_def diagnostic_def
        process_line_def transform_line_def default_options_def initial_state_def)

lemma failing_stdin_process_file:
  "process_file failing_stdin ''-'' default_options (initial_state failing_stdin) =
     (True, \<lparr>line_number = 1, last_was_blank = False, cout = [], cerr = [], cin_rest = []\<rparr>)"
  by (simp add: process_file_def failing_stdin_def initial_state_def)

text \<open>
  Claim C7. The claim holds of a named file (\<open>bad_stream_reported\<close> with
  \<open>stream_bad_named\<close>). It fails on standard input: when a read of standard input
  fails, \<^verbatim>\<open>bad()\<close> is false on \<^verbatim>\<open>std::cin\<close>, and \<^verbatim>\<open>process_file\<close> returns
  \<^verbatim>\<open>true\<close> without a diagnostic, as after a clean end of the input. A file \<^verbatim>\<open>f2\<close>
  that delivers the line \<^verbatim>\<open>p\<close> and then fails is reported.
\<close>

theorem stdin_read_error_unreported:
  "read_error failing_stdin ''-''
   \<and> process_file failing_stdin ''-'' default_options (initial_state failing_stdin) =
       (True, \<lparr>line_number = 1, last_was_blank = False, cout = [], cerr = [], cin_rest = []\<rparr>)
   \<and> read_error failing_middle ''f2''
   \<and> process_file failing_middle ''f2'' default_options (initial_state failing_middle) =
       (False, \<lparr>line_number = 1, last_was_blank = False, cout = ''p'' @ [NL],
                cerr = ''mycat: f2: Read error'' @ [NL], cin_rest = []\<rparr>)"
proof -
  have "read_error failing_stdin ''-''"
    by (simp add: read_error_def failing_stdin_def)
  moreover have "read_error failing_middle ''f2''"
    by (simp add: read_error_def failing_middle_def regular_file_def)
  ultimately show ?thesis
    using failing_stdin_process_file failing_middle_f2_run by blast
qed

section \<open>A source that cannot be opened\<close>

lemma process_file_open_error:
  assumes "filename \<noteq> ''-''" "open_error (file_system env filename) = Some e"
  shows "process_file env filename opts st =
           (False, st\<lparr>cerr := cerr st @ ''mycat: '' @ filename @ '': '' @ e @ [NL]\<rparr>)"
  using assms by (simp add: process_file_def diagnostic_def)

lemma main_step_unavailable:
  assumes "filename \<noteq> ''-''"
    "access_denied env filename \<or> open_error (file_system env filename) \<noteq> None"
  shows "fst (main_step env opts filename (h, st)) = True"
    and "stream_part (snd (main_step env opts filename (h, st))) = stream_part st"
proof -
  from assms have "failure_detected env filename" by (auto simp add: failure_detected_def)
  then show "fst (main_step env opts filename (h, st)) = True"
    by (simp add: main_step_had_errors)
  from assms have "source_lines env filename (cin_rest st) = []" by (simp add: source_lines_def)
  then show "stream_part (snd (main_step env opts filename (h, st))) = stream_part st"
    by (simp add: main_step_stream)
qed

text \<open>
  Claim C9. When a named source cannot be opened, \<^verbatim>\<open>process_file\<close> returns
  \<^verbatim>\<open>false\<close> and changes nothing but \<^verbatim>\<open>std::cerr\<close>: the output, \<^verbatim>\<open>line_number\<close> and
  \<^verbatim>\<open>last_was_blank\<close> are what they were. The same holds of the step of \<^verbatim>\<open>main\<close> for
  a source that fails the access check or the open.
\<close>

theorem open_failure_frame:
  "(filename \<noteq> ''-'' \<and> open_error (file_system env filename) = Some e \<longrightarrow>
      process_file env filename opts st =
        (False, st\<lparr>cerr := cerr st @ ''mycat: '' @ filename @ '': '' @ e @ [NL]\<rparr>)
      \<and> cout (snd (process_file env filename opts st)) = cout st
      \<and> line_number (snd (process_file env filename opts st)) = line_number st
      \<and> last_was_blank (snd (process_file env filename opts st)) = last_was_blank st)
   \<and> (filename \<noteq> ''-''
        \<and> (access_denied env filename \<or> open_error (file_system env filename) \<noteq> None) \<longrightarrow>
        fst (main_step env opts filename (h, st)) = True
        \<and> stream_part (snd (main_step env opts filename (h, st))) = stream_part st)"
proof -
  have "filename \<noteq> ''-'' \<Longrightarrow> open_error (file_system env filename) = Some e \<Longrightarrow>
      process_file env filename opts st =
        (False, st\<lparr>cerr := cerr st @ ''mycat: '' @ filename @ '': '' @ e @ [NL]\<rparr>)
      \<and> cout (snd (process_file env filename opts st)) = cout st
      \<and> line_number (snd (process_file env filename opts st)) = line_number st
      \<and> last_was_blank (snd (process_file env filename opts st)) = last_was_blank st"
    by (simp add: process_file_open_error)
  then show ?thesis
    using main_step_unavailable [of filename env opts h st] by blast
qed

lemma vanishing_middle_f2:
  "open_error (file_system vanishing_middle ''f2'') = Some ''Permission denied''"
  "\<not> access_denied vanishing_middle ''f2''"
  by (simp_all add: access_denied_def vanishing_middle_def regular_file_def)

text \<open>
  Claim C9, a witness: the theorem at a file that passes the access check and cannot be opened, after a
  numbered blank line.
\<close>

theorem open_failure_frame_witness:
  "process_file vanishing_middle ''f2'' (default_options\<lparr>number_lines := True\<rparr>)
       \<lparr>line_number = 2, last_was_blank = True, cout = ''     1 '' @ [NL], cerr = [], cin_rest = []\<rparr>
     = (False, \<lparr>line_number = 2, last_was_blank = True, cout = ''     1 '' @ [NL],
                cerr = ''mycat: f2: Permission denied'' @ [NL], cin_rest = []\<rparr>)
   \<and> fst (main_step vanishing_middle (default_options\<lparr>number_lines := True\<rparr>) ''f2''
       (False, \<lparr>line_number = 2, last_was_blank = True, cout = ''     1 '' @ [NL], cerr = [],
                cin_rest = []\<rparr>)) = True
   \<and> stream_part (snd (main_step vanishing_middle (default_options\<lparr>number_lines := True\<rparr>) ''f2''
       (False, \<lparr>line_number = 2, last_was_blank = True, cout = ''     1 '' @ [NL], cerr = [],
                cin_rest = []\<rparr>))) = (2, True, ''     1 '' @ [NL])"
  using open_failure_frame [of "''f2''" vanishing_middle "''Permission denied''"
      "default_options\<lparr>number_lines := True\<rparr>"
      "\<lparr>line_number = 2, last_was_blank = True, cout = ''     1 '' @ [NL], cerr = [], cin_rest = []\<rparr>"
      False]
    vanishing_middle_f2
  by (simp add: stream_part_def)

section \<open>No numbering\<close>

lemma process_line_unnumbered:
  "\<not> number_lines opts \<Longrightarrow> \<not> number_non_blank opts \<Longrightarrow>
   line_number (process_line opts line st) = line_number st"
  by (simp add: process_line_def Let_def)

lemma read_lines_unnumbered:
  "\<not> number_lines opts \<Longrightarrow> \<not> number_non_blank opts \<Longrightarrow>
   line_number (read_lines opts ls st) = line_number st"
  by (induction ls arbitrary: st) (simp_all add: process_line_unnumbered)

lemma process_file_unnumbered:
  "\<not> number_lines opts \<Longrightarrow> \<not> number_non_blank opts \<Longrightarrow>
   line_number (snd (process_file env filename opts st)) = line_number st"
  by (simp add: process_file_def Let_def read_lines_unnumbered split: option.splits)

text \<open>
  Claim C10. With \<^verbatim>\<open>number_lines\<close> and \<^verbatim>\<open>number_non_blank\<close> both off, no line, no
  stream, no source and no run changes \<^verbatim>\<open>line_number\<close>: after any number of lines
  and sources of a run it is still 1.
\<close>

theorem counter_untouched:
  "(\<not> number_lines opts \<and> \<not> number_non_blank opts \<longrightarrow>
      line_number (process_line opts line st) = line_number st
      \<and> line_number (read_lines opts ls st) = line_number st
      \<and> line_number (snd (process_file env filename opts st)) = line_number st
      \<and> line_number (snd (main_loop env opts files (h, st))) = line_number st
      \<and> line_number (snd (main_loop env opts files (False, initial_state env))) = 1)
   \<and> (parse_arguments argv default_options [] = (True, opts, files', e)
        \<and> \<not> number_lines opts \<and> \<not> number_non_blank opts \<longrightarrow>
        line_number (snd (main argv env)) = 1)"
proof -
  have i: "line_number (initial_state env) = 1" by (simp add: initial_state_def)
  have l: "\<not> number_lines opts \<Longrightarrow> \<not> number_non_blank opts \<Longrightarrow>
      line_number (snd (main_loop env opts fs (h', st'))) = line_number st'" for fs h' st'
    by (simp add: main_loop_line_number read_lines_unnumbered)
  have "parse_arguments argv default_options [] = (True, opts, files', e) \<Longrightarrow>
        \<not> number_lines opts \<Longrightarrow> \<not> number_non_blank opts \<Longrightarrow>
        line_number (snd (main argv env)) = 1"
    by (simp add: main_run l i del: main_loop.simps)
  then show ?thesis
    using process_line_unnumbered [of opts line st] read_lines_unnumbered [of opts ls st]
      process_file_unnumbered [of opts env filename st] l [of files h st]
      l [of files False "initial_state env"] i
    by simp
qed

text \<open>Claim C10, a witness: the theorem at \<^verbatim>\<open>mycat -s g1 g2\<close>.\<close>

theorem counter_untouched_witness:
  "line_number (process_line (default_options\<lparr>squeeze_blanks := True\<rparr>) ''x''
       (initial_state blank_boundary)) = 1
   \<and> line_number (read_lines (default_options\<lparr>squeeze_blanks := True\<rparr>) [''x'', []]
       (initial_state blank_boundary)) = 1
   \<and> line_number (snd (process_file blank_boundary ''g1'' (default_options\<lparr>squeeze_blanks := True\<rparr>)
       (initial_state blank_boundary))) = 1
   \<and> line_number (snd (main_loop blank_boundary (default_options\<lparr>squeeze_blanks := True\<rparr>)
       [''g1'', ''g2''] (False, initial_state blank_boundary))) = 1
   \<and> line_number (snd (main [''mycat'', ''-s'', ''g1'', ''g2''] blank_boundary)) = 1"
proof -
  have o: "\<not> number_lines (default_options\<lparr>squeeze_blanks := True\<rparr>)"
    "\<not> number_non_blank (default_options\<lparr>squeeze_blanks := True\<rparr>)"
    by (simp_all add: default_options_def)
  have i: "line_number (initial_state blank_boundary) = 1" by (simp add: initial_state_def)
  show ?thesis
    using counter_untouched [of "default_options\<lparr>squeeze_blanks := True\<rparr>" "''x''"
        "initial_state blank_boundary" "[''x'', []]" blank_boundary "''g1''" "[''g1'', ''g2'']"
        False "[''mycat'', ''-s'', ''g1'', ''g2'']" "[''g1'', ''g2'']" "[]"]
      o i parse_s_g1_g2
    by (simp del: main_loop.simps read_lines.simps)
qed

section \<open>Precedence of -b over -n\<close>

lemma parse_loop_silent:
  "parse_loop args stop opts files = (True, opts', files', e) \<Longrightarrow> e = []"
proof (induction args arbitrary: stop opts files)
  case Nil
  then show ?case by simp
next
  case (Cons arg args)
  then show ?case
    by (cases "parse_flags (tl arg) opts") (auto split: if_splits bool.splits)
qed

lemma parse_arguments_silent:
  "parse_arguments argv opts files = (True, opts', files', e) \<Longrightarrow> e = []"
  by (auto simp add: parse_arguments_def split: prod.splits bool.splits dest: parse_loop_silent)

lemma parse_arguments_resolved:
  "parse_arguments argv opts0 files0 = (True, opts, files, e) \<Longrightarrow>
   \<not> (number_lines opts \<and> number_non_blank opts)"
  by (auto simp add: parse_arguments_def split: prod.splits bool.splits if_splits)

lemma set_flags_Nil: "set_flags [] opts = opts"
  by (simp add: set_flags_def)

lemma set_flags_append: "set_flags (xs @ ys) opts = set_flags ys (set_flags xs opts)"
  by (simp add: set_flags_def disj_assoc)

lemma set_flags_Cons:
  "set_flags (CHR ''n'' # cs) opts = set_flags cs (opts\<lparr>number_lines := True\<rparr>)"
  "set_flags (CHR ''b'' # cs) opts = set_flags cs (opts\<lparr>number_non_blank := True\<rparr>)"
  "set_flags (CHR ''E'' # cs) opts = set_flags cs (opts\<lparr>show_ends := True\<rparr>)"
  "set_flags (CHR ''T'' # cs) opts = set_flags cs (opts\<lparr>show_tabs := True\<rparr>)"
  "set_flags (CHR ''s'' # cs) opts = set_flags cs (opts\<lparr>squeeze_blanks := True\<rparr>)"
  by (simp_all add: set_flags_def)

lemma valid_letter:
  "c \<in> set ''nbETs'' \<longleftrightarrow>
     c = CHR ''n'' \<or> c = CHR ''b'' \<or> c = CHR ''E'' \<or> c = CHR ''T'' \<or> c = CHR ''s''"
  by simp

lemma parse_flags_valid:
  "set cs \<subseteq> set ''nbETs'' \<Longrightarrow> parse_flags cs opts = (True, set_flags cs opts, [])"
proof (induction cs arbitrary: opts)
  case Nil
  show ?case by (simp add: set_flags_Nil)
next
  case (Cons c cs)
  from Cons.prems have "c \<in> set ''nbETs''" and cs: "set cs \<subseteq> set ''nbETs''"
    by simp_all
  then have c: "c = CHR ''n'' \<or> c = CHR ''b'' \<or> c = CHR ''E'' \<or> c = CHR ''T'' \<or> c = CHR ''s''"
    by (simp only: valid_letter)
  have IH: "parse_flags cs opts' = (True, set_flags cs opts', [])" for opts'
    by (rule Cons.IH [OF cs])
  from c show ?case
    by (elim disjE) (simp_all add: IH set_flags_Cons)
qed

lemma parse_flags_invalid:
  "\<not> set cs \<subseteq> set ''nbETs'' \<Longrightarrow> fst (parse_flags cs opts) = False"
proof (induction cs arbitrary: opts)
  case Nil
  then show ?case by simp
next
  case (Cons c cs)
  show ?case
  proof (cases "c \<in> set ''nbETs''")
    case True
    have "set (c # cs) \<subseteq> set ''nbETs'' \<longleftrightarrow> c \<in> set ''nbETs'' \<and> set cs \<subseteq> set ''nbETs''"
      by (simp only: list.set insert_subset)
    with True Cons.prems have "\<not> set cs \<subseteq> set ''nbETs''" by blast
    then have IH: "fst (parse_flags cs opts') = False" for opts'
      by (rule Cons.IH)
    from True have "c = CHR ''n'' \<or> c = CHR ''b'' \<or> c = CHR ''E'' \<or> c = CHR ''T'' \<or> c = CHR ''s''"
      by (simp only: valid_letter)
    then show ?thesis
      by (elim disjE) (simp_all add: IH)
  next
    case False
    then have "c \<noteq> CHR ''n''" "c \<noteq> CHR ''b''" "c \<noteq> CHR ''E''" "c \<noteq> CHR ''T''" "c \<noteq> CHR ''s''"
      by auto
    then show ?thesis by simp
  qed
qed

lemma parse_loop_valid:
  "set (flag_letters args stop) \<subseteq> set ''nbETs'' \<Longrightarrow>
   parse_loop args stop opts files =
     (True, set_flags (flag_letters args stop) opts, files @ operands args stop, [])"
proof (induction args arbitrary: stop opts files)
  case Nil
  show ?case by (simp add: set_flags_Nil)
next
  case (Cons arg args)
  show ?case
  proof (cases "arg = ''--''")
    case True
    with Cons.prems have "set (flag_letters args True) \<subseteq> set ''nbETs''" by simp
    from Cons.IH [OF this] True show ?thesis by simp
  next
    case False
    show ?thesis
    proof (cases "\<not> stop \<and> first_char arg = CHR ''-'' \<and> length arg > 1")
      case True
      then have dash: "arg \<noteq> ''-''" by auto
      from True False Cons.prems
      have a: "set (tl arg) \<subseteq> set ''nbETs''" and r: "set (flag_letters args stop) \<subseteq> set ''nbETs''"
        by simp_all
      have f: "parse_flags (tl arg) opts = (True, set_flags (tl arg) opts, [])"
        by (rule parse_flags_valid [OF a])
      from Cons.IH [OF r, of "set_flags (tl arg) opts" files] f True False dash show ?thesis
        by (simp add: set_flags_append)
    next
      case no_flag: False
      with False Cons.prems have "set (flag_letters args stop) \<subseteq> set ''nbETs''" by auto
      from Cons.IH [OF this, of opts "files @ [arg]"] no_flag False show ?thesis by auto
    qed
  qed
qed

lemma parse_loop_invalid:
  "\<not> set (flag_letters args stop) \<subseteq> set ''nbETs'' \<Longrightarrow>
   fst (parse_loop args stop opts files) = False"
proof (induction args arbitrary: stop opts files)
  case Nil
  then show ?case by simp
next
  case (Cons arg args)
  show ?case
  proof (cases "arg = ''--''")
    case True
    with Cons.prems have "\<not> set (flag_letters args True) \<subseteq> set ''nbETs''" by simp
    from Cons.IH [OF this] True show ?thesis by simp
  next
    case False
    show ?thesis
    proof (cases "\<not> stop \<and> first_char arg = CHR ''-'' \<and> length arg > 1")
      case True
      then have dash: "arg \<noteq> ''-''" by auto
      show ?thesis
      proof (cases "set (tl arg) \<subseteq> set ''nbETs''")
        case valid: True
        with True False Cons.prems have r: "\<not> set (flag_letters args stop) \<subseteq> set ''nbETs''"
          by simp
        have f: "parse_flags (tl arg) opts = (True, set_flags (tl arg) opts, [])"
          by (rule parse_flags_valid [OF valid])
        from Cons.IH [OF r, of "set_flags (tl arg) opts" files] f True False dash show ?thesis
          by simp
      next
        case invalid: False
        obtain ok o1 e1 where f: "parse_flags (tl arg) opts = (ok, o1, e1)"
          by (cases "parse_flags (tl arg) opts")
        with parse_flags_invalid [OF invalid, of opts] have "\<not> ok" by simp
        with f True False dash show ?thesis by simp
      qed
    next
      case no_flag: False
      with False Cons.prems have "\<not> set (flag_letters args stop) \<subseteq> set ''nbETs''" by auto
      from Cons.IH [OF this, of opts "files @ [arg]"] no_flag False show ?thesis by auto
    qed
  qed
qed

lemma resolve_set_flags:
  "(if number_non_blank (set_flags letters default_options)
    then (set_flags letters default_options)\<lparr>number_lines := False\<rparr>
    else set_flags letters default_options) = configuration letters"
  by (auto simp add: set_flags_def configuration_def default_options_def)

lemma parse_arguments_valid:
  assumes "set (flag_letters (drop 1 argv) False) \<subseteq> set ''nbETs''"
  shows "parse_arguments argv default_options [] =
           (True, configuration (flag_letters (drop 1 argv) False), operands (drop 1 argv) False, [])"
  using resolve_set_flags [of "flag_letters (drop 1 argv) False"]
  by (simp add: parse_arguments_def parse_loop_valid [OF assms] del: One_nat_def)

lemma parse_arguments_invalid:
  assumes "\<not> set (flag_letters (drop 1 argv) False) \<subseteq> set ''nbETs''"
  shows "fst (parse_arguments argv default_options []) = False"
  using parse_loop_invalid [OF assms, of default_options "[]"]
  by (cases "parse_loop (drop 1 argv) False default_options []")
     (simp add: parse_arguments_def split: bool.splits)

lemma configuration_without_n:
  assumes "CHR ''b'' \<in> set letters1"
    and "set letters1 - {CHR ''n''} = set letters2 - {CHR ''n''}"
  shows "configuration letters1 = configuration letters2"
proof -
  have m: "c \<noteq> CHR ''n'' \<Longrightarrow> c \<in> set letters1 \<longleftrightarrow> c \<in> set letters2" for c
    using assms(2) by blast
  from m [of "CHR ''b''"] m [of "CHR ''E''"] m [of "CHR ''T''"] m [of "CHR ''s''"] assms(1)
  show ?thesis by (simp add: configuration_def)
qed

text \<open>
  The precedence is the parser's alone: the loop over the lines, handed both flags,
  numbers as under \<^verbatim>\<open>number_lines\<close>; but \<^verbatim>\<open>parse_arguments\<close> never hands it both.
\<close>

lemma process_line_number_lines:
  "process_line (opts\<lparr>number_lines := True, number_non_blank := True\<rparr>) line st =
   process_line (opts\<lparr>number_lines := True, number_non_blank := False\<rparr>) line st"
  by (simp add: process_line_def transform_line_def Let_def)

text \<open>
  Claim C6. A command line whose flag letters are all valid parses to the configuration
  of its letters, in which \<^verbatim>\<open>b\<close> takes precedence over \<^verbatim>\<open>n\<close>, whether the letters
  stand in one argument or in several and in whatever order; with another letter the
  parse fails. With \<^verbatim>\<open>b\<close> among the letters the configuration has
  \<^verbatim>\<open>number_non_blank\<close> set and \<^verbatim>\<open>number_lines\<close> clear, and two command lines with
  \<^verbatim>\<open>b\<close> that differ in nothing but their \<^verbatim>\<open>n\<close> letters give the same run in every
  environment. The options \<^verbatim>\<open>parse_arguments\<close> returns never have both flags set: the
  loop over the lines is never handed both.
\<close>

theorem nonblank_precedence:
  "(set (flag_letters (drop 1 argv) False) \<subseteq> set ''nbETs'' \<longrightarrow>
      parse_arguments argv default_options [] =
        (True, configuration (flag_letters (drop 1 argv) False), operands (drop 1 argv) False, []))
   \<and> (\<not> set (flag_letters (drop 1 argv) False) \<subseteq> set ''nbETs'' \<longrightarrow>
        fst (parse_arguments argv default_options []) = False)
   \<and> (CHR ''b'' \<in> set letters \<longrightarrow>
        number_non_blank (configuration letters) \<and> \<not> number_lines (configuration letters))
   \<and> (set (flag_letters (drop 1 argv1) False) \<subseteq> set ''nbETs''
        \<and> set (flag_letters (drop 1 argv2) False) \<subseteq> set ''nbETs''
        \<and> CHR ''b'' \<in> set (flag_letters (drop 1 argv1) False)
        \<and> set (flag_letters (drop 1 argv1) False) - {CHR ''n''} =
            set (flag_letters (drop 1 argv2) False) - {CHR ''n''}
        \<and> operands (drop 1 argv1) False = operands (drop 1 argv2) False \<longrightarrow>
        main argv1 env = main argv2 env)
   \<and> (parse_arguments argv opts0 files0 = (True, opts, files, e) \<longrightarrow>
        \<not> (number_lines opts \<and> number_non_blank opts))"
proof -
  have a: "set (flag_letters (drop 1 argv) False) \<subseteq> set ''nbETs'' \<longrightarrow>
      parse_arguments argv default_options [] =
        (True, configuration (flag_letters (drop 1 argv) False), operands (drop 1 argv) False, [])"
    using parse_arguments_valid [of argv] by blast
  have b: "\<not> set (flag_letters (drop 1 argv) False) \<subseteq> set ''nbETs'' \<longrightarrow>
        fst (parse_arguments argv default_options []) = False"
    using parse_arguments_invalid [of argv] by blast
  have c: "CHR ''b'' \<in> set letters \<longrightarrow>
        number_non_blank (configuration letters) \<and> \<not> number_lines (configuration letters)"
    by (simp add: configuration_def)
  have d: "set (flag_letters (drop 1 argv1) False) \<subseteq> set ''nbETs''
        \<and> set (flag_letters (drop 1 argv2) False) \<subseteq> set ''nbETs''
        \<and> CHR ''b'' \<in> set (flag_letters (drop 1 argv1) False)
        \<and> set (flag_letters (drop 1 argv1) False) - {CHR ''n''} =
            set (flag_letters (drop 1 argv2) False) - {CHR ''n''}
        \<and> operands (drop 1 argv1) False = operands (drop 1 argv2) False \<longrightarrow>
        main argv1 env = main argv2 env"
  proof (intro impI, elim conjE)
    assume v1: "set (flag_letters (drop 1 argv1) False) \<subseteq> set ''nbETs''"
      and v2: "set (flag_letters (drop 1 argv2) False) \<subseteq> set ''nbETs''"
      and b1: "CHR ''b'' \<in> set (flag_letters (drop 1 argv1) False)"
      and eq: "set (flag_letters (drop 1 argv1) False) - {CHR ''n''} =
            set (flag_letters (drop 1 argv2) False) - {CHR ''n''}"
      and ops: "operands (drop 1 argv1) False = operands (drop 1 argv2) False"
    have cfg: "configuration (flag_letters (drop 1 argv1) False) =
               configuration (flag_letters (drop 1 argv2) False)"
      by (rule configuration_without_n [OF b1 eq])
    have p1: "parse_arguments argv1 default_options [] =
        (True, configuration (flag_letters (drop 1 argv2) False), operands (drop 1 argv2) False, [])"
      using parse_arguments_valid [OF v1] by (simp only: cfg ops)
    have p2: "parse_arguments argv2 default_options [] =
        (True, configuration (flag_letters (drop 1 argv2) False), operands (drop 1 argv2) False, [])"
      by (rule parse_arguments_valid [OF v2])
    show "main argv1 env = main argv2 env"
      by (simp only: main_run [OF p1] main_run [OF p2])
  qed
  have r: "parse_arguments argv opts0 files0 = (True, opts, files, e) \<longrightarrow>
        \<not> (number_lines opts \<and> number_non_blank opts)"
    using parse_arguments_resolved [of argv opts0 files0 opts files e] by blast
  from a b c d r show ?thesis by blast
qed

lemma parse_b_g1:
  "parse_arguments [''mycat'', ''-b'', ''g1''] default_options [] =
     (True, default_options\<lparr>number_non_blank := True\<rparr>, [''g1''], [])"
  by (simp add: parse_arguments_def first_char_def default_options_def)

lemma run_b_g1:
  "cout (snd (main [''mycat'', ''-b'', ''g1''] blank_boundary)) = ''     1 x'' @ [NL, NL]"
proof -
  have g1: "file_system blank_boundary ''g1'' = regular_file [''x'', []]"
    by (simp add: blank_boundary_def)
  have "main_loop blank_boundary (default_options\<lparr>number_non_blank := True\<rparr>) [''g1'']
          (False, initial_state blank_boundary) =
        (False, read_lines (default_options\<lparr>number_non_blank := True\<rparr>) [''x'', []]
          (initial_state blank_boundary))"
    by (simp add: regular_file_step [OF _ g1] del: read_lines.simps)
  moreover have "cout (read_lines (default_options\<lparr>number_non_blank := True\<rparr>) [''x'', []]
          (initial_state blank_boundary)) = ''     1 x'' @ [NL, NL]"
    by (simp add: process_line_def transform_line_def default_options_def initial_state_def
          number_prefix_1_to_3)
  ultimately show ?thesis
    by (simp add: main_run [OF parse_b_g1] del: main_loop.simps read_lines.simps)
qed

text \<open>
  Claim C6, a witness: the theorem at \<^verbatim>\<open>mycat -nb g1\<close> and \<^verbatim>\<open>mycat -b -n g1\<close> against
  \<^verbatim>\<open>mycat -b g1\<close>, where \<^verbatim>\<open>g1\<close> holds the line \<^verbatim>\<open>x\<close> and a blank line: the blank
  line gets no number. \<^verbatim>\<open>mycat -q g1\<close> does not parse.
\<close>

theorem nonblank_precedence_witness:
  "parse_arguments [''mycat'', ''-nb'', ''g1''] default_options [] =
     (True, default_options\<lparr>number_non_blank := True\<rparr>, [''g1''], [])
   \<and> fst (parse_arguments [''mycat'', ''-q'', ''g1''] default_options []) = False
   \<and> number_non_blank (configuration ''nb'') \<and> \<not> number_lines (configuration ''nb'')
   \<and> main [''mycat'', ''-nb'', ''g1''] blank_boundary = main [''mycat'', ''-b'', ''g1''] blank_boundary
   \<and> main [''mycat'', ''-b'', ''-n'', ''g1''] blank_boundary =
       main [''mycat'', ''-b'', ''g1''] blank_boundary
   \<and> cout (snd (main [''mycat'', ''-nb'', ''g1''] blank_boundary)) = ''     1 x'' @ [NL, NL]
   \<and> \<not> (number_lines (default_options\<lparr>number_non_blank := True\<rparr>)
         \<and> number_non_blank (default_options\<lparr>number_non_blank := True\<rparr>))"
proof -
  have cfg: "configuration ''nb'' = default_options\<lparr>number_non_blank := True\<rparr>"
    by (simp add: configuration_def default_options_def)
  from nonblank_precedence [of "[''mycat'', ''-nb'', ''g1'']" "''nb''"
      "[''mycat'', ''-nb'', ''g1'']" "[''mycat'', ''-b'', ''g1'']" blank_boundary]
  have p: "parse_arguments [''mycat'', ''-nb'', ''g1''] default_options [] =
     (True, default_options\<lparr>number_non_blank := True\<rparr>, [''g1''], [])"
    and c: "number_non_blank (configuration ''nb'')" "\<not> number_lines (configuration ''nb'')"
    and m1: "main [''mycat'', ''-nb'', ''g1''] blank_boundary =
       main [''mycat'', ''-b'', ''g1''] blank_boundary"
    by (simp_all add: first_char_def cfg)
  have d: "{CHR ''b'', CHR ''n''} - {CHR ''n''} = {CHR ''b''}" by auto
  from nonblank_precedence [of "[''mycat'', ''-q'', ''g1'']" "''nb''"
      "[''mycat'', ''-b'', ''-n'', ''g1'']" "[''mycat'', ''-b'', ''g1'']" blank_boundary]
  have q: "fst (parse_arguments [''mycat'', ''-q'', ''g1''] default_options []) = False"
    and m2: "main [''mycat'', ''-b'', ''-n'', ''g1''] blank_boundary =
       main [''mycat'', ''-b'', ''g1''] blank_boundary"
    using d by (simp_all add: first_char_def)
  from nonblank_precedence [of "[''mycat'', ''-nb'', ''g1'']" "''nb''" "[]" "[]" blank_boundary
      default_options "[]" "default_options\<lparr>number_non_blank := True\<rparr>" "[''g1'']" "[]"] p
  have r: "\<not> (number_lines (default_options\<lparr>number_non_blank := True\<rparr>)
         \<and> number_non_blank (default_options\<lparr>number_non_blank := True\<rparr>))"
    by blast
  from p q c m1 m2 r run_b_g1 show ?thesis by simp
qed

end
